theory Spec2Isabelle
  imports Complex_Main
begin

section \<open>Cart aggregate and order life cycle of the e-commerce backend\<close>

text \<open>
  The development embeds \<^verbatim>\<open>src/models/Cart.js\<close> (the cart methods), the Order schema
  and the order handlers of \<^verbatim>\<open>src/controllers/orderController.js\<close>.

  Conventions of the embedding:
  \<^item> a JavaScript Number is an IEEE 754 double: a \<open>number\<close> is a finite double, given by
    its value, or an infinity; every sum and product is rounded to the nearest double,
    and \<open>toFixed2\<close> is \<^verbatim>\<open>parseFloat(x.toFixed(2))\<close> on doubles;
  \<^item> \<^verbatim>\<open>Date.now()\<close> is the parameter \<open>now\<close> of every operation that reads the clock;
  \<^item> an ObjectId is its 24-digit hexadecimal string; \<^verbatim>\<open>undefined\<close> is \<open>None\<close>;
  \<^item> a \<^verbatim>\<open>throw\<close> (or a rejected promise, or \<^verbatim>\<open>next(err)\<close> in a handler) is \<open>Inl\<close> of an
    \<open>error\<close>; a method that mutates \<^verbatim>\<open>this\<close> returns the document as it stands after
    the call, also when the call throws;
  \<^item> Mongoose's \<^verbatim>\<open>save\<close> and \<^verbatim>\<open>create\<close> run the validators that the schemas declare;
    the error they raise is \<open>ValidationError\<close>, with a summary as its message;
  \<^item> \<^verbatim>\<open>AppError\<close> (\<^verbatim>\<open>utils/AppError\<close>) is an error with a message and an HTTP status code;
  \<^item> strings are byte strings: case conversion and white space are those of ASCII.
\<close>

subsection \<open>Values, errors and strings\<close>

type_synonym objectId = string
type_synonym timestamp = nat

datatype error =
    AppError string nat
  | ReferenceError string
  | TypeError string
  | CastError string
  | ValidationError string

fun message :: "error \<Rightarrow> string" where
  "message (AppError m _) = m"
| "message (ReferenceError m) = m"
| "message (TypeError m) = m"
| "message (CastError m) = m"
| "message (ValidationError m) = m"

text \<open>The status code an error carries: only an \<^verbatim>\<open>AppError\<close> has one.\<close>

fun statusCode :: "error \<Rightarrow> nat option" where
  "statusCode (AppError _ c) = Some c"
| "statusCode _ = None"

text \<open>\<^verbatim>\<open>String.prototype.toLowerCase\<close> and \<^verbatim>\<open>toUpperCase\<close> on the ASCII letters; other
  bytes are kept.\<close>

definition toLowerChar :: "char \<Rightarrow> char" where
  "toLowerChar c =
     (let n = (of_char c :: nat) in if 65 \<le> n \<and> n \<le> 90 then char_of (n + 32) else c)"

definition toLowerCase :: "string \<Rightarrow> string" where
  "toLowerCase s = map toLowerChar s"

definition isHexDigit :: "char \<Rightarrow> bool" where
  "isHexDigit c =
     (let n = (of_char c :: nat)
      in (48 \<le> n \<and> n \<le> 57) \<or> (65 \<le> n \<and> n \<le> 70) \<or> (97 \<le> n \<and> n \<le> 102))"

text \<open>Mongoose casts a string to an ObjectId (the \<^verbatim>\<open>_id\<close> of a filter, the \<^verbatim>\<open>product\<close> of
  a line): 24 hexadecimal digits, read without regard to case; any other string is a
  \<^verbatim>\<open>CastError\<close>.\<close>

definition castObjectId :: "string \<Rightarrow> objectId option" where
  "castObjectId s =
     (if length s = 24 \<and> list_all isHexDigit s then Some (toLowerCase s) else None)"

definition toUpperChar :: "char \<Rightarrow> char" where
  "toUpperChar c =
     (let n = (of_char c :: nat) in if 97 \<le> n \<and> n \<le> 122 then char_of (n - 32) else c)"

definition toUpperCase :: "string \<Rightarrow> string" where
  "toUpperCase s = map toUpperChar s"

definition isWhitespace :: "char \<Rightarrow> bool" where
  "isWhitespace c = ((of_char c :: nat) \<in> {9, 10, 11, 12, 13, 32})"

text \<open>\<^verbatim>\<open>String.prototype.trim\<close>.\<close>

definition trim :: "string \<Rightarrow> string" where
  "trim s = rev (dropWhile isWhitespace (rev (dropWhile isWhitespace s)))"

text \<open>\<^verbatim>\<open>x || d\<close> on an optional string: \<^verbatim>\<open>undefined\<close> and the empty string are falsy.\<close>

definition orElse :: "string option \<Rightarrow> string \<Rightarrow> string" where
  "orElse x d = (case x of None \<Rightarrow> d | Some s \<Rightarrow> if s = [] then d else s)"

text \<open>\<^verbatim>\<open>Array.prototype.findIndex\<close>: the first index whose element satisfies the
  predicate; \<open>None\<close> stands for the result \<^verbatim>\<open>-1\<close>.\<close>

fun findIndex :: "('a \<Rightarrow> bool) \<Rightarrow> 'a list \<Rightarrow> nat option" where
  "findIndex P [] = None"
| "findIndex P (x # xs) =
     (if P x then Some 0 else map_option Suc (findIndex P xs))"

text \<open>\<^verbatim>\<open>xs.splice(i, 1)\<close>.\<close>

definition splice1 :: "nat \<Rightarrow> 'a list \<Rightarrow> 'a list" where
  "splice1 i xs = take i xs @ drop (Suc i) xs"

subsection \<open>Numbers\<close>

text \<open>\<open>Num x\<close> is the finite double of value \<open>x\<close>; negative zero is not told from zero.
  NaN is no value of the type: Mongoose refuses to store it in a Number path, and an
  operation whose result is NaN returns \<open>None\<close>.\<close>

datatype number = Num rat | Infinity | NegInfinity

fun negate :: "number \<Rightarrow> number" where
  "negate (Num x) = Num (- x)"
| "negate Infinity = NegInfinity"
| "negate NegInfinity = Infinity"

text \<open>Two to the power \<open>k\<close>, for any integer \<open>k\<close>.\<close>

definition pow2 :: "int \<Rightarrow> rat" where
  "pow2 k = (if 0 \<le> k then 2 ^ nat k else 1 / 2 ^ nat (- k))"

text \<open>The number of binary digits of a natural number.\<close>

function bitLength :: "nat \<Rightarrow> nat" where
  "bitLength n = (if n = 0 then 0 else Suc (bitLength (n div 2)))"
  by pat_completeness auto
termination
  by (relation "measure id") auto

text \<open>The binary exponent of a positive rational \<open>a\<close>: the \<open>e\<close> with
  \<open>2\<^sup>e \<le> a < 2\<^sup>e\<^sup>+\<^sup>1\<close>. Below one it is read off the integer part of \<open>1 / a\<close>,
  which lies between \<open>2\<^sup>j\<close> and \<open>2\<^sup>j\<^sup>+\<^sup>1\<close>.\<close>

definition exponentBelowOne :: "rat \<Rightarrow> int \<Rightarrow> int" where
  "exponentBelowOne a j = (if pow2 (- j) \<le> a then - j else - j - 1)"

definition exponent :: "rat \<Rightarrow> int" where
  "exponent a =
     (if 1 \<le> a then int (bitLength (nat \<lfloor>a\<rfloor>)) - 1
      else exponentBelowOne a (int (bitLength (nat \<lfloor>1 / a\<rfloor>)) - 1))"

text \<open>Rounding to the nearest integer, a tie going to the even one; \<open>f\<close> is the floor
  of \<open>x\<close>.\<close>

definition roundTie :: "rat \<Rightarrow> int \<Rightarrow> int" where
  "roundTie x f =
     (if x - of_int f < 1 / 2 then f
      else if 1 / 2 < x - of_int f then f + 1
      else if even f then f else f + 1)"

definition roundHalfEven :: "rat \<Rightarrow> int" where
  "roundHalfEven x = roundTie x \<lfloor>x\<rfloor>"

text \<open>The exponent of the last binary place of a double with binary exponent \<open>e\<close>: 53
  significant bits, and no place below \<open>2\<^sup>-\<^sup>1\<^sup>0\<^sup>7\<^sup>4\<close> (subnormal numbers).\<close>

definition ulpExponent :: "int \<Rightarrow> int" where
  "ulpExponent e = max (e - 52) (- 1074)"

text \<open>The double with mantissa \<open>m\<close> at the place \<open>u\<close>; \<open>None\<close> when it is \<open>2\<^sup>1\<^sup>0\<^sup>2\<^sup>4\<close> or
  more, which is the overflow to an infinity.\<close>

definition fromMantissa :: "int \<Rightarrow> int \<Rightarrow> int \<Rightarrow> rat option" where
  "fromMantissa e u m =
     (if 1023 < e \<or> (e = 1023 \<and> 2 ^ 53 \<le> m) then None else Some (of_int m * pow2 u))"

definition roundWithExponent :: "int \<Rightarrow> rat \<Rightarrow> rat option" where
  "roundWithExponent e a =
     fromMantissa e (ulpExponent e) (roundHalfEven (a / pow2 (ulpExponent e)))"

definition roundPositive :: "rat \<Rightarrow> rat option" where
  "roundPositive a = roundWithExponent (exponent a) a"

text \<open>The double nearest to a rational (round to nearest, ties to even): the result of
  every arithmetic operation and of reading a decimal numeral.\<close>

definition roundToDouble :: "rat \<Rightarrow> number" where
  "roundToDouble x =
     (if x = 0 then Num 0
      else if 0 < x then (case roundPositive x of None \<Rightarrow> Infinity | Some y \<Rightarrow> Num y)
      else (case roundPositive (- x) of None \<Rightarrow> NegInfinity | Some y \<Rightarrow> Num (- y)))"

text \<open>\<^verbatim>\<open>a + b\<close> and \<^verbatim>\<open>a * b\<close>; \<open>None\<close> is NaN.\<close>

fun jsadd :: "number \<Rightarrow> number \<Rightarrow> number option" where
  "jsadd (Num a) (Num b) = Some (roundToDouble (a + b))"
| "jsadd Infinity NegInfinity = None"
| "jsadd NegInfinity Infinity = None"
| "jsadd Infinity _ = Some Infinity"
| "jsadd _ Infinity = Some Infinity"
| "jsadd NegInfinity _ = Some NegInfinity"
| "jsadd _ NegInfinity = Some NegInfinity"

fun jsmul :: "number \<Rightarrow> number \<Rightarrow> number option" where
  "jsmul (Num a) (Num b) = Some (roundToDouble (a * b))"
| "jsmul (Num a) y = (if a = 0 then None else Some (if 0 < a then y else negate y))"
| "jsmul x (Num b) = (if b = 0 then None else Some (if 0 < b then x else negate x))"
| "jsmul Infinity Infinity = Some Infinity"
| "jsmul NegInfinity NegInfinity = Some Infinity"
| "jsmul _ _ = Some NegInfinity"

text \<open>\<^verbatim>\<open>a <= b\<close>.\<close>

fun numLe :: "number \<Rightarrow> number \<Rightarrow> bool" where
  "numLe (Num a) (Num b) = (a \<le> b)"
| "numLe NegInfinity _ = True"
| "numLe _ Infinity = True"
| "numLe _ _ = False"

text \<open>\<^verbatim>\<open>!x\<close> on a number that is not NaN: true for zero only.\<close>

definition isZero :: "number \<Rightarrow> bool" where
  "isZero x = (x = Num 0)"

text \<open>\<^verbatim>\<open>Number.isInteger\<close>.\<close>

fun isInteger :: "number \<Rightarrow> bool" where
  "isInteger (Num x) = (of_int \<lfloor>x\<rfloor> = x)"
| "isInteger _ = False"

text \<open>\<^verbatim>\<open>x.toFixed(2)\<close> writes a finite \<open>x\<close> below \<open>10\<^sup>2\<^sup>1\<close> in magnitude as the integer
  \<open>n\<close> of hundredths for which \<open>n / 100 - x\<close> is closest to zero, the larger \<open>n\<close> on a
  tie, with the sign in front; \<^verbatim>\<open>parseFloat\<close> reads that decimal numeral as the nearest
  double. A larger \<open>x\<close> and an infinity are written in full and read back unchanged.\<close>

definition hundredths :: "rat \<Rightarrow> int" where
  "hundredths a = \<lfloor>a * 100 + 1 / 2\<rfloor>"

fun toFixed2 :: "number \<Rightarrow> number" where
  "toFixed2 (Num x) =
     (if 10 ^ 21 \<le> \<bar>x\<bar> then Num x
      else if x < 0 then negate (roundToDouble (of_int (hundredths (- x)) / 100))
      else roundToDouble (of_int (hundredths x) / 100))"
| "toFixed2 Infinity = Infinity"
| "toFixed2 NegInfinity = NegInfinity"

subsection \<open>JavaScript objects and the variant of a line\<close>

text \<open>The value of a key: absent or \<^verbatim>\<open>undefined\<close>, \<^verbatim>\<open>null\<close>, or a value.\<close>

datatype 'a field = Unset | Null | Val 'a

fun mapField :: "('a \<Rightarrow> 'b) \<Rightarrow> 'a field \<Rightarrow> 'b field" where
  "mapField f Unset = Unset"
| "mapField f Null = Null"
| "mapField f (Val x) = Val (f x)"

text \<open>A primitive JavaScript value.\<close>

datatype jsval = JUndefined | JNull | JBool bool | JNum number | JStr string

text \<open>The \<^verbatim>\<open>variant\<close> object of the argument of \<^verbatim>\<open>addItem\<close>: its own keys in the order
  of insertion, each key once. A key of the item schema carries a value of the type
  the schema gives it; any other key (the cart controller sends \<^verbatim>\<open>_id\<close>) carries a
  primitive value.\<close>

datatype rawEntry =
    RName "string field"
  | RSku "string field"
  | RColor "string field"
  | RSize "string field"
  | RPrice "number field"
  | RStock "number field"
  | ROther string jsval

type_synonym rawVariant = "rawEntry list"

text \<open>The nested path \<^verbatim>\<open>variant\<close> of a stored line: the six paths of the item schema, in
  the order of the schema. It has no \<^verbatim>\<open>_id\<close>.\<close>

record variant =
  variant_name :: "string field"
  variant_sku :: "string field"
  variant_color :: "string field"
  variant_size :: "string field"
  variant_price :: "number field"
  variant_stock :: "number field"

text \<open>The value a key has in an object: that of its entry.\<close>

fun rawName :: "rawVariant \<Rightarrow> string field" where
  "rawName [] = Unset"
| "rawName (RName f # es) = f"
| "rawName (e # es) = rawName es"

fun rawSku :: "rawVariant \<Rightarrow> string field" where
  "rawSku [] = Unset"
| "rawSku (RSku f # es) = f"
| "rawSku (e # es) = rawSku es"

fun rawColor :: "rawVariant \<Rightarrow> string field" where
  "rawColor [] = Unset"
| "rawColor (RColor f # es) = f"
| "rawColor (e # es) = rawColor es"

fun rawSize :: "rawVariant \<Rightarrow> string field" where
  "rawSize [] = Unset"
| "rawSize (RSize f # es) = f"
| "rawSize (e # es) = rawSize es"

fun rawPrice :: "rawVariant \<Rightarrow> number field" where
  "rawPrice [] = Unset"
| "rawPrice (RPrice f # es) = f"
| "rawPrice (e # es) = rawPrice es"

fun rawStock :: "rawVariant \<Rightarrow> number field" where
  "rawStock [] = Unset"
| "rawStock (RStock f # es) = f"
| "rawStock (e # es) = rawStock es"

text \<open>What Mongoose stores when the object is written to the nested path: the keys of
  the schema only (strict mode drops \<^verbatim>\<open>_id\<close> and every other key), in the order of the
  schema, each string through the setters of its path (\<^verbatim>\<open>trim\<close>, and \<^verbatim>\<open>uppercase\<close> for
  the SKU).\<close>

definition castVariant :: "rawVariant \<Rightarrow> variant" where
  "castVariant raw =
     \<lparr>variant_name = mapField trim (rawName raw),
      variant_sku = mapField (\<lambda>s. toUpperCase (trim s)) (rawSku raw),
      variant_color = mapField trim (rawColor raw),
      variant_size = mapField trim (rawSize raw),
      variant_price = rawPrice raw,
      variant_stock = rawStock raw\<rparr>"

text \<open>\<^verbatim>\<open>JSON.stringify\<close> of an object writes its keys in order, each with its value,
  and leaves out a key whose value is \<^verbatim>\<open>undefined\<close>; an infinity is written as
  \<^verbatim>\<open>null\<close>. Two texts are equal exactly when these sequences of keys and values are:
  the sequence stands for the text.\<close>

type_synonym json = "(string \<times> jsval) list"

fun jsonNumber :: "number \<Rightarrow> jsval" where
  "jsonNumber (Num x) = JNum (Num x)"
| "jsonNumber _ = JNull"

fun jsonString :: "string \<Rightarrow> string field \<Rightarrow> json" where
  "jsonString k Unset = []"
| "jsonString k Null = [(k, JNull)]"
| "jsonString k (Val s) = [(k, JStr s)]"

fun jsonNumberField :: "string \<Rightarrow> number field \<Rightarrow> json" where
  "jsonNumberField k Unset = []"
| "jsonNumberField k Null = [(k, JNull)]"
| "jsonNumberField k (Val x) = [(k, jsonNumber x)]"

fun jsonEntry :: "rawEntry \<Rightarrow> json" where
  "jsonEntry (RName f) = jsonString ''name'' f"
| "jsonEntry (RSku f) = jsonString ''sku'' f"
| "jsonEntry (RColor f) = jsonString ''color'' f"
| "jsonEntry (RSize f) = jsonString ''size'' f"
| "jsonEntry (RPrice f) = jsonNumberField ''price'' f"
| "jsonEntry (RStock f) = jsonNumberField ''stock'' f"
| "jsonEntry (ROther k JUndefined) = []"
| "jsonEntry (ROther k (JNum x)) = [(k, jsonNumber x)]"
| "jsonEntry (ROther k v) = [(k, v)]"

text \<open>\<^verbatim>\<open>JSON.stringify(itemData.variant || {})\<close>, on the argument as it is passed.\<close>

definition stringifyRaw :: "rawVariant \<Rightarrow> json" where
  "stringifyRaw raw = concat (map jsonEntry raw)"

text \<open>\<^verbatim>\<open>JSON.stringify(item.variant)\<close>, on the stored nested path.\<close>

definition stringifyVariant :: "variant \<Rightarrow> json" where
  "stringifyVariant v =
     jsonString ''name'' (variant_name v) @ jsonString ''sku'' (variant_sku v)
     @ jsonString ''color'' (variant_color v) @ jsonString ''size'' (variant_size v)
     @ jsonNumberField ''price'' (variant_price v)
     @ jsonNumberField ''stock'' (variant_stock v)"

text \<open>\<^verbatim>\<open>item.variant?._id\<close> on a stored line: the nested path has no \<^verbatim>\<open>_id\<close>, so the read
  gives \<^verbatim>\<open>undefined\<close>.\<close>

definition variant_id :: "variant \<Rightarrow> objectId option" where
  "variant_id v = None"

subsection \<open>Cart documents\<close>

text \<open>A line of the cart (\<^verbatim>\<open>cartItemSchema\<close>). \<open>item_id\<close> is \<^verbatim>\<open>item._id\<close>.
  \<open>item_product\<close> is the string of the stored ObjectId; for a product that was no
  ObjectId, which Mongoose does not store and reports when the document is validated,
  it is the string that was given. \<open>quantityCastError\<close> records that the last
  assignment to \<^verbatim>\<open>quantity\<close> was NaN: Mongoose then keeps the old value and marks the
  path invalid until a number is assigned.\<close>

record cartItem =
  item_id :: "objectId option"
  item_product :: objectId
  item_name :: string
  quantity :: number
  price :: number
  item_image :: string
  item_variant :: variant
  addedAt :: timestamp
  quantityCastError :: bool

text \<open>The argument of \<^verbatim>\<open>addItem\<close>. \<^verbatim>\<open>product\<close> is a string, as the request writes it
  (the cart controller passes \<^verbatim>\<open>req.body.product\<close>); \<^verbatim>\<open>quantity\<close> and \<^verbatim>\<open>price\<close> are
  numbers; the variant is optional.\<close>

record itemData =
  data_product :: string
  data_name :: string
  data_quantity :: number
  data_price :: number
  data_image :: string
  data_variant :: "rawVariant option"

record cart =
  user :: "objectId option"
  isGuest :: bool
  guestEmail :: "string option"
  items :: "cartItem list"
  paymentMethod :: "string option"
  subtotal :: number
  shippingCost :: number
  totalAmount :: number
  isConverted :: bool
  lastUpdated :: timestamp

subsection \<open>Validators of the cart schema\<close>

text \<open>The validator's pattern \<^verbatim>\<open>/^[^\s@]+@[^\s@]+\.[^\s@]+$/\<close>: one \<^verbatim>\<open>@\<close>, no white space,
  a non-empty local part, and a dot strictly inside the domain.\<close>

definition emailPattern :: "string \<Rightarrow> bool" where
  "emailPattern s =
     (let local = takeWhile (\<lambda>c. c \<noteq> CHR ''@'') s;
          domain = drop (Suc (length local)) s
      in list_all (\<lambda>c. \<not> isWhitespace c) s
         \<and> CHR ''@'' \<in> set s
         \<and> CHR ''@'' \<notin> set domain
         \<and> local \<noteq> []
         \<and> list_ex (\<lambda>i. domain ! i = CHR ''.'') [1..<length domain - 1])"

definition paymentMethods :: "string list" where
  "paymentMethods = [''cash'', ''paypal'', ''stripe'', ''card'']"

text \<open>\<^verbatim>\<open>min: 0\<close> on an optional Number path.\<close>

definition nonNegative :: "number field \<Rightarrow> bool" where
  "nonNegative v = (case v of Val x \<Rightarrow> numLe (Num 0) x | _ \<Rightarrow> True)"

definition validCartItem :: "cartItem \<Rightarrow> bool" where
  "validCartItem it =
     (castObjectId (item_product it) \<noteq> None
      \<and> item_name it \<noteq> []
      \<and> \<not> quantityCastError it
      \<and> numLe (Num 1) (quantity it) \<and> numLe (quantity it) (Num 100)
      \<and> isInteger (quantity it)
      \<and> numLe (Num 0) (price it)
      \<and> nonNegative (variant_price (item_variant it))
      \<and> nonNegative (variant_stock (item_variant it)))"

definition validGuestEmail :: "cart \<Rightarrow> bool" where
  "validGuestEmail c =
     (case guestEmail c of
        None \<Rightarrow> \<not> isGuest c
      | Some e \<Rightarrow> if e = [] then \<not> isGuest c else emailPattern e)"

definition validCart :: "cart \<Rightarrow> bool" where
  "validCart c =
     (validGuestEmail c
      \<and> length (items c) \<le> 50
      \<and> list_all validCartItem (items c)
      \<and> (case paymentMethod c of None \<Rightarrow> True | Some m \<Rightarrow> m \<in> set paymentMethods)
      \<and> numLe (Num 0) (subtotal c) \<and> numLe (Num 0) (shippingCost c)
      \<and> numLe (Num 0) (totalAmount c))"

text \<open>\<^verbatim>\<open>this.save()\<close>: validation, then the \<^verbatim>\<open>pre('save')\<close> hook stamps
  \<^verbatim>\<open>lastUpdated\<close>. \<open>castFailed\<close> says that an assignment of NaN to a path of the
  document has failed since the document was loaded: validation reports it.\<close>

definition saveAfter :: "bool \<Rightarrow> timestamp \<Rightarrow> cart \<Rightarrow> (error + unit) \<times> cart" where
  "saveAfter castFailed now c =
     (if \<not> castFailed \<and> validCart c then (Inr (), c\<lparr>lastUpdated := now\<rparr>)
      else (Inl (ValidationError ''Cart validation failed''), c))"

definition save :: "timestamp \<Rightarrow> cart \<Rightarrow> (error + unit) \<times> cart" where
  "save now c = saveAfter False now c"

subsection \<open>Cart methods\<close>

text \<open>\<^verbatim>\<open>subtotal += item.price * item.quantity\<close>, on an accumulator that may be NaN.\<close>

definition addProduct :: "number option \<Rightarrow> number option \<Rightarrow> number option" where
  "addProduct acc p =
     (case acc of None \<Rightarrow> None | Some a \<Rightarrow> (case p of None \<Rightarrow> None | Some b \<Rightarrow> jsadd a b))"

text \<open>The \<^verbatim>\<open>forEach\<close> of \<^verbatim>\<open>calculateTotals\<close>, with its accumulator \<^verbatim>\<open>subtotal\<close>.\<close>

fun sumItems :: "cartItem list \<Rightarrow> number option \<Rightarrow> error + number option" where
  "sumItems [] acc = Inr acc"
| "sumItems (it # its) acc =
     (if isZero (price it) \<or> isZero (quantity it)
      then Inl (AppError ''Invalid item in cart'' 400)
      else sumItems its (addProduct acc (jsmul (price it) (quantity it))))"

text \<open>\<^verbatim>\<open>this.subtotal = parseFloat(subtotal.toFixed(2))\<close> and the same for
  \<^verbatim>\<open>totalAmount\<close>. Assigning NaN fails the cast: the path keeps its value and the failure
  is reported by the validation of \<^verbatim>\<open>save\<close>. The result is the document and whether
  a cast has failed.\<close>

definition assignSubtotal :: "number option \<Rightarrow> cart \<Rightarrow> cart \<times> bool" where
  "assignSubtotal s c =
     (case s of None \<Rightarrow> (c, True) | Some v \<Rightarrow> (c\<lparr>subtotal := toFixed2 v\<rparr>, False))"

definition assignTotal :: "cart \<times> bool \<Rightarrow> cart \<times> bool" where
  "assignTotal cf =
     (case jsadd (subtotal (fst cf)) (shippingCost (fst cf)) of
        None \<Rightarrow> (fst cf, True)
      | Some v \<Rightarrow> ((fst cf)\<lparr>totalAmount := toFixed2 v\<rparr>, snd cf))"

definition stampAndSave :: "timestamp \<Rightarrow> cart \<times> bool \<Rightarrow> (error + unit) \<times> cart" where
  "stampAndSave now cf = saveAfter (snd cf) now ((fst cf)\<lparr>lastUpdated := now\<rparr>)"

text \<open>The error thrown inside the \<^verbatim>\<open>try\<close> is rethrown with status 500; the promise
  of \<^verbatim>\<open>save\<close> is returned, not awaited, so its rejection passes unchanged.\<close>

definition calculateTotals :: "timestamp \<Rightarrow> cart \<Rightarrow> (error + unit) \<times> cart" where
  "calculateTotals now c =
     (case sumItems (items c) (Some (Num 0)) of
        Inl e \<Rightarrow> (Inl (AppError (''Error calculating cart totals: '' @ message e) 500), c)
      | Inr s \<Rightarrow> stampAndSave now (assignTotal (assignSubtotal s c)))"

text \<open>A variant that is absent is the empty object: \<^verbatim>\<open>itemData.variant || {}\<close> in the
  comparison of \<^verbatim>\<open>addItem\<close>, and the empty nested path of a pushed line.\<close>

definition variantOrEmpty :: "rawVariant option \<Rightarrow> rawVariant" where
  "variantOrEmpty v = (case v of None \<Rightarrow> [] | Some w \<Rightarrow> w)"

text \<open>The line pushed by \<^verbatim>\<open>addItem\<close>: the fields of \<^verbatim>\<open>itemData\<close> and \<^verbatim>\<open>addedAt\<close>, cast by
  the item schema. The schema has \<^verbatim>\<open>_id: false\<close>; the product becomes an ObjectId, whose
  string has lower-case letters; the name is trimmed; the variant keeps the paths of the
  schema.\<close>

definition newItem :: "timestamp \<Rightarrow> itemData \<Rightarrow> cartItem" where
  "newItem now d =
     \<lparr>item_id = None, item_product = toLowerCase (data_product d),
      item_name = trim (data_name d),
      quantity = data_quantity d, price = data_price d, item_image = data_image d,
      item_variant = castVariant (variantOrEmpty (data_variant d)),
      addedAt = now, quantityCastError = False\<rparr>"

text \<open>The predicate of \<^verbatim>\<open>addItem\<close>'s \<^verbatim>\<open>findIndex\<close>:
  \<^verbatim>\<open>item.product.toString() === itemData.product.toString()\<close> compares the string of the
  stored ObjectId with the string the caller wrote, and the second conjunct compares
  the JSON text of the stored variant with the JSON text of the argument's variant.\<close>

definition sameLine :: "itemData \<Rightarrow> cartItem \<Rightarrow> bool" where
  "sameLine d it =
     (item_product it = data_product d
      \<and> stringifyVariant (item_variant it) = stringifyRaw (variantOrEmpty (data_variant d)))"

text \<open>\<^verbatim>\<open>item.quantity += q\<close>: NaN is not stored.\<close>

definition addQuantity :: "number \<Rightarrow> cartItem \<Rightarrow> cartItem" where
  "addQuantity q it =
     (case jsadd (quantity it) q of
        None \<Rightarrow> it\<lparr>quantityCastError := True\<rparr>
      | Some v \<Rightarrow> it\<lparr>quantity := v, quantityCastError := False\<rparr>)"

definition addItem :: "timestamp \<Rightarrow> itemData \<Rightarrow> cart \<Rightarrow> (error + unit) \<times> cart" where
  "addItem now d c =
     (if isConverted c then (Inl (AppError ''Cannot add items to a converted cart'' 400), c)
      else
        (case findIndex (sameLine d) (items c) of
           Some i \<Rightarrow>
             calculateTotals now
               (c\<lparr>items := (items c)[i := addQuantity (data_quantity d) (items c ! i)]\<rparr>)
         | None \<Rightarrow> calculateTotals now (c\<lparr>items := items c @ [newItem now d]\<rparr>)))"

text \<open>The predicate of \<^verbatim>\<open>removeItem\<close>'s \<^verbatim>\<open>findIndex\<close>: item identity, product identity
  (\<^verbatim>\<open>product._id\<close> and \<^verbatim>\<open>product\<close> are the same ObjectId), variant identity. \<open>targetId\<close> is
  \<^verbatim>\<open>itemId?.toString()\<close>, \<open>None\<close> when \<^verbatim>\<open>itemId\<close> is undefined.\<close>

definition removeMatch :: "objectId option \<Rightarrow> cartItem \<Rightarrow> bool" where
  "removeMatch targetId it =
     (item_id it = targetId
      \<or> Some (item_product it) = targetId
      \<or> (variant_id (item_variant it) \<noteq> None \<and> variant_id (item_variant it) = targetId))"

text \<open>\<^verbatim>\<open>removeItem\<close>. In the branch for a missing line the method evaluates
  \<^verbatim>\<open>next(new AppError('Item not found in cart', 404))\<close>, and no \<^verbatim>\<open>next\<close> is in scope of
  the method: the call raises \<^verbatim>\<open>ReferenceError\<close>.\<close>

definition removeItem :: "timestamp \<Rightarrow> objectId option \<Rightarrow> cart \<Rightarrow> (error + unit) \<times> cart" where
  "removeItem now itemId c =
     (if isConverted c then (Inl (AppError ''Cannot modify a converted cart'' 400), c)
      else
        (case findIndex (removeMatch itemId) (items c) of
           None \<Rightarrow> (Inl (ReferenceError ''next is not defined''), c)
         | Some i \<Rightarrow> calculateTotals now (c\<lparr>items := splice1 i (items c)\<rparr>)))"

text \<open>The predicate of \<^verbatim>\<open>updateItemQuantity\<close>'s \<^verbatim>\<open>find\<close>: product or variant identity.
  The method writes the quantity of the line found, that is of the first line that
  satisfies the predicate.\<close>

definition updateMatch :: "objectId option \<Rightarrow> cartItem \<Rightarrow> bool" where
  "updateMatch targetId it =
     (Some (item_product it) = targetId
      \<or> (variant_id (item_variant it) \<noteq> None \<and> variant_id (item_variant it) = targetId))"

definition updateItemQuantity ::
  "timestamp \<Rightarrow> objectId option \<Rightarrow> number \<Rightarrow> cart \<Rightarrow> (error + unit) \<times> cart" where
  "updateItemQuantity now itemId newQuantity c =
     (if isConverted c then (Inl (AppError ''Cannot modify a converted cart'' 400), c)
      else
        (case findIndex (updateMatch itemId) (items c) of
           None \<Rightarrow> (Inl (AppError ''Item not found in cart'' 404), c)
         | Some i \<Rightarrow>
             calculateTotals now
               (c\<lparr>items := (items c)[i := (items c ! i)
                              \<lparr>quantity := newQuantity, quantityCastError := False\<rparr>]\<rparr>)))"

subsection \<open>The caller of \<^verbatim>\<open>addItem\<close>\<close>

text \<open>The variant object that the handler \<^verbatim>\<open>addItem\<close> of \<^verbatim>\<open>cartController.js\<close> builds for
  a selected variant of the product, the only caller that passes a variant:
  \<^verbatim>\<open>{_id: variant._id, name: variant.name, price: variant.price, sku: variant.sku || ''}\<close>.\<close>

definition controllerVariant ::
  "objectId \<Rightarrow> string \<Rightarrow> number \<Rightarrow> string option \<Rightarrow> rawVariant" where
  "controllerVariant vid n p s =
     [ROther ''_id'' (JStr vid), RName (Val n), RPrice (Val p), RSku (Val (orElse s []))]"

subsection \<open>Order documents\<close>

record orderItem =
  oi_product :: objectId
  oi_name :: string
  oi_quantity :: number
  oi_price :: number
  oi_image :: string

text \<open>A shipping address; a field that is missing is the empty string, which the
  \<^verbatim>\<open>required\<close> validator of a String path rejects like \<^verbatim>\<open>undefined\<close>.\<close>

record shippingAddress =
  fullName :: string
  phone :: string
  country :: string
  city :: string
  street :: string
  postalCode :: string
  address_notes :: string

record paymentDetails =
  provider :: string
  paymentID :: string
  payerEmail :: "string option"
  cardLast4 :: string
  receiptUrl :: string

text \<open>The Order schema. Fields that share a name with a cart field carry the prefix
  \<open>order_\<close>; \<open>order_id\<close> is \<^verbatim>\<open>_id\<close>. \<^verbatim>\<open>status\<close>, \<^verbatim>\<open>paymentStatus\<close> and
  \<^verbatim>\<open>paymentMethod\<close> are strings, as in the schema, with the \<^verbatim>\<open>enum\<close> lists as
  validators.\<close>

record order =
  order_id :: objectId
  order_user :: "objectId option"
  order_isGuest :: bool
  order_guestEmail :: "string option"
  guestName :: "string option"
  orderItems :: "orderItem list"
  order_shippingAddress :: shippingAddress
  order_paymentDetails :: paymentDetails
  order_paymentMethod :: string
  paymentStatus :: string
  status :: string
  order_totalAmount :: number
  isPaid :: bool
  paidAt :: "timestamp option"
  isDelivered :: bool
  deliveredAt :: "timestamp option"
  isCancelled :: bool
  cancelledAt :: "timestamp option"
  order_notes :: "string option"

text \<open>The object literal \<^verbatim>\<open>orderData\<close> that \<^verbatim>\<open>convertToOrder\<close> hands to
  \<^verbatim>\<open>Order.create\<close>: exactly the keys the method writes.\<close>

record orderData =
  od_orderItems :: "orderItem list"
  od_shippingAddress :: shippingAddress
  od_paymentMethod :: string
  od_paymentDetails :: paymentDetails
  od_totalAmount :: number
  od_itemsPrice :: number
  od_shippingPrice :: number
  od_taxPrice :: number
  od_isPaid :: bool
  od_paidAt :: "timestamp option"
  od_isDelivered :: bool
  od_status :: string
  od_user :: "objectId option"
  od_isGuest :: "bool option"
  od_guestEmail :: "string option"
  od_guestName :: "string option"

definition orderStatuses :: "string list" where
  "orderStatuses = [''processing'', ''confirmed'', ''shipped'', ''delivered'', ''cancelled'']"

definition paymentStatuses :: "string list" where
  "paymentStatuses = [''pending'', ''paid'', ''failed'']"

definition validOrderItem :: "orderItem \<Rightarrow> bool" where
  "validOrderItem oi = (oi_name oi \<noteq> [] \<and> numLe (Num 1) (oi_quantity oi))"

definition validAddress :: "shippingAddress \<Rightarrow> bool" where
  "validAddress a =
     (fullName a \<noteq> [] \<and> phone a \<noteq> [] \<and> country a \<noteq> [] \<and> city a \<noteq> []
      \<and> street a \<noteq> [] \<and> postalCode a \<noteq> [])"

definition validOrder :: "order \<Rightarrow> bool" where
  "validOrder d =
     ((order_isGuest d \<longrightarrow> order_guestEmail d \<noteq> None \<and> order_guestEmail d \<noteq> Some [])
      \<and> orderItems d \<noteq> []
      \<and> list_all validOrderItem (orderItems d)
      \<and> validAddress (order_shippingAddress d)
      \<and> order_paymentMethod d \<in> set paymentMethods
      \<and> paymentStatus d \<in> set paymentStatuses
      \<and> status d \<in> set orderStatuses
      \<and> numLe (Num 0) (order_totalAmount d))"

text \<open>\<^verbatim>\<open>Order.create(orderData)\<close>: the document gets the fresh identifier \<open>newId\<close>, the
  paths of the schema that \<^verbatim>\<open>orderData\<close> sets, and the schema's defaults for the
  others (\<^verbatim>\<open>paymentStatus: 'pending'\<close>, \<^verbatim>\<open>isGuest: false\<close>, \<^verbatim>\<open>isCancelled: false\<close>);
  \<^verbatim>\<open>itemsPrice\<close>, \<^verbatim>\<open>shippingPrice\<close> and \<^verbatim>\<open>taxPrice\<close> are no paths of the schema and are
  dropped. The document is validated and, when valid, inserted.\<close>

definition newOrder :: "objectId \<Rightarrow> orderData \<Rightarrow> order" where
  "newOrder newId od =
     \<lparr>order_id = newId,
      order_user = od_user od,
      order_isGuest = (case od_isGuest od of None \<Rightarrow> False | Some b \<Rightarrow> b),
      order_guestEmail = od_guestEmail od,
      guestName = od_guestName od,
      orderItems = od_orderItems od,
      order_shippingAddress = od_shippingAddress od,
      order_paymentDetails = od_paymentDetails od,
      order_paymentMethod = od_paymentMethod od,
      paymentStatus = ''pending'',
      status = od_status od,
      order_totalAmount = od_totalAmount od,
      isPaid = od_isPaid od,
      paidAt = od_paidAt od,
      isDelivered = od_isDelivered od,
      deliveredAt = None,
      isCancelled = False,
      cancelledAt = None,
      order_notes = None\<rparr>"

definition Order_create ::
  "objectId \<Rightarrow> orderData \<Rightarrow> order list \<Rightarrow> error + (order \<times> order list)" where
  "Order_create newId od db =
     (let d = newOrder newId od
      in if validOrder d then Inr (d, db @ [d])
         else Inl (ValidationError ''Order validation failed''))"

subsection \<open>Cart conversion\<close>

text \<open>The client's \<^verbatim>\<open>paymentDetails\<close> object (default \<^verbatim>\<open>{}\<close>).\<close>

record paymentInput =
  in_paymentID :: "string option"
  in_payerEmail :: "string option"
  in_cardLast4 :: "string option"
  in_receiptUrl :: "string option"

definition digit :: "nat \<Rightarrow> char" where
  "digit n = char_of (48 + n)"

function decimal :: "nat \<Rightarrow> string" where
  "decimal n = (if n < 10 then [digit n] else decimal (n div 10) @ [digit (n mod 10)])"
  by pat_completeness auto
termination
  by (relation "measure id") auto

definition orderItemOf :: "cartItem \<Rightarrow> orderItem" where
  "orderItemOf it =
     \<lparr>oi_product = item_product it, oi_name = item_name it, oi_quantity = quantity it,
      oi_price = price it, oi_image = item_image it\<rparr>"

text \<open>The literal \<^verbatim>\<open>orderData\<close> and the owner fields set after it. \<^verbatim>\<open>this.user\<close> is an
  ObjectId, so \<^verbatim>\<open>this.user.email\<close> is undefined; the cart schema has no \<^verbatim>\<open>taxAmount\<close>
  and no \<^verbatim>\<open>guestName\<close>.\<close>

definition buildOrderData ::
  "timestamp \<Rightarrow> paymentInput \<Rightarrow> shippingAddress \<Rightarrow> string \<Rightarrow> cart \<Rightarrow> orderData" where
  "buildOrderData now pd addr pm c =
     \<lparr>od_orderItems = map orderItemOf (items c),
      od_shippingAddress = addr,
      od_paymentMethod = pm,
      od_paymentDetails =
        \<lparr>provider = pm,
         paymentID = orElse (in_paymentID pd) (''pay_'' @ decimal now),
         payerEmail =
           (case in_payerEmail pd of
              None \<Rightarrow> (if user c \<noteq> None then None else guestEmail c)
            | Some e \<Rightarrow>
                if e = [] then (if user c \<noteq> None then None else guestEmail c) else Some e),
         cardLast4 = orElse (in_cardLast4 pd) ''0000'',
         receiptUrl = orElse (in_receiptUrl pd) []\<rparr>,
      od_totalAmount = totalAmount c,
      od_itemsPrice = subtotal c,
      od_shippingPrice = shippingCost c,
      od_taxPrice = Num 0,
      od_isPaid = (pm \<noteq> ''cash''),
      od_paidAt = (if pm \<noteq> ''cash'' then Some now else None),
      od_isDelivered = False,
      od_status = (if pm = ''cash'' then ''pending'' else ''processing''),
      od_user = user c,
      od_isGuest = (if user c \<noteq> None then Some False else if isGuest c then Some True else None),
      od_guestEmail = (if user c = None \<and> isGuest c then guestEmail c else None),
      od_guestName = (if user c = None \<and> isGuest c then Some ''Guest'' else None)\<rparr>"

text \<open>\<^verbatim>\<open>convertToOrder\<close>, on the cart and the Order collection. \<open>newId\<close> is the
  identifier the store gives the new document. The result is the value returned or the
  error thrown, the cart document after the call, and the collection after the call.
  Past the check \<^verbatim>\<open>!paymentMethod\<close> the method is present and \<open>orElse pm []\<close> is its
  value.\<close>

definition convertToOrder ::
  "timestamp \<Rightarrow> objectId \<Rightarrow> paymentInput \<Rightarrow> shippingAddress option \<Rightarrow> string option \<Rightarrow>
   cart \<Rightarrow> order list \<Rightarrow> (error + order) \<times> cart \<times> order list" where
  "convertToOrder now newId pd sa pm c db =
     (if isConverted c then
        (Inl (AppError ''Cart has already been converted to an order'' 400), c, db)
      else if items c = [] then
        (Inl (AppError ''Cannot convert empty cart to order'' 400), c, db)
      else
        (case sa of
           None \<Rightarrow> (Inl (AppError ''Shipping address is required'' 400), c, db)
         | Some addr \<Rightarrow>
             (if pm = None \<or> pm = Some [] then
                (Inl (AppError ''Payment method is required'' 400), c, db)
              else
                (case (if isZero (totalAmount c) \<or> isZero (subtotal c)
                       then calculateTotals now c else (Inr (), c)) of
                   (Inl e, c1) \<Rightarrow> (Inl e, c1, db)
                 | (Inr _, c1) \<Rightarrow>
                     (case Order_create newId (buildOrderData now pd addr (orElse pm []) c1) db of
                        Inl e \<Rightarrow> (Inl e, c1, db)
                      | Inr (d, db') \<Rightarrow>
                          (case save now (c1\<lparr>isConverted := True\<rparr>) of
                             (Inl e, c2) \<Rightarrow> (Inl e, c2, db')
                           | (Inr _, c2) \<Rightarrow> (Inr d, c2, db')))))))"

subsection \<open>Requests and the Order collection\<close>

record reqUser =
  user_id :: objectId
  role :: string

text \<open>The parts of an HTTP request the order handlers read: \<^verbatim>\<open>req.user\<close>,
  \<^verbatim>\<open>req.params.orderId\<close>, \<^verbatim>\<open>req.body.newStatus\<close>, \<^verbatim>\<open>req.body.notes\<close>,
  \<^verbatim>\<open>req.body.guestEmail\<close> and \<^verbatim>\<open>req.query.guestEmail\<close>.\<close>

record request =
  req_user :: "reqUser option"
  params_orderId :: "string option"
  body_newStatus :: "string option"
  body_notes :: "string option"
  body_guestEmail :: "string option"
  query_guestEmail :: "string option"

text \<open>The filter object \<^verbatim>\<open>query\<close> of the handlers: \<^verbatim>\<open>_id\<close> always, the other keys
  when the handler sets them.\<close>

record orderFilter =
  f_id :: string
  f_user :: "objectId option"
  f_guestEmail :: "string option"
  f_isGuest :: "bool option"

definition matches :: "orderFilter \<Rightarrow> objectId \<Rightarrow> order \<Rightarrow> bool" where
  "matches q i d =
     (order_id d = i
      \<and> (case f_user q of None \<Rightarrow> True | Some u \<Rightarrow> order_user d = Some u)
      \<and> (case f_guestEmail q of None \<Rightarrow> True | Some e \<Rightarrow> order_guestEmail d = Some e)
      \<and> (case f_isGuest q of None \<Rightarrow> True | Some b \<Rightarrow> order_isGuest d = b))"

text \<open>\<^verbatim>\<open>Order.findOne(query)\<close>: the first document of the collection that matches, or
  \<^verbatim>\<open>null\<close>. \<^verbatim>\<open>populate\<close> and \<^verbatim>\<open>select\<close> change no field of the model.\<close>

definition findOne :: "orderFilter \<Rightarrow> order list \<Rightarrow> error + order option" where
  "findOne q db =
     (case castObjectId (f_id q) of
        None \<Rightarrow> Inl (CastError ''Cast to ObjectId failed for path _id'')
      | Some i \<Rightarrow> Inr (find (matches q i) db))"

definition findById :: "string \<Rightarrow> order list \<Rightarrow> error + order option" where
  "findById orderId db =
     findOne \<lparr>f_id = orderId, f_user = None, f_guestEmail = None, f_isGuest = None\<rparr> db"

text \<open>\<^verbatim>\<open>order.save()\<close>: validation, then the stored document with this \<^verbatim>\<open>_id\<close> is
  replaced.\<close>

definition saveOrder :: "order \<Rightarrow> order list \<Rightarrow> error + order list" where
  "saveOrder d db =
     (if validOrder d then Inr (map (\<lambda>x. if order_id x = order_id d then d else x) db)
      else Inl (ValidationError ''Order validation failed''))"

text \<open>The access-control block that \<^verbatim>\<open>getMyOrderById\<close> and \<^verbatim>\<open>cancelMyOrder\<close> both
  contain: an administrator filters by \<^verbatim>\<open>_id\<close> only, another authenticated user also by
  \<^verbatim>\<open>user\<close>, a caller without identity by the lowercased guest email and \<^verbatim>\<open>isGuest\<close>.
  \<open>None\<close> is the last \<^verbatim>\<open>else\<close>: neither identity nor email.\<close>

definition accessQuery :: "reqUser option \<Rightarrow> string option \<Rightarrow> string \<Rightarrow> orderFilter option" where
  "accessQuery u email orderId =
     (case u of
        Some usr \<Rightarrow>
          if role usr = ''admin'' then
            Some \<lparr>f_id = orderId, f_user = None, f_guestEmail = None, f_isGuest = None\<rparr>
          else
            Some \<lparr>f_id = orderId, f_user = Some (user_id usr), f_guestEmail = None,
                  f_isGuest = None\<rparr>
      | None \<Rightarrow>
          (case email of
             None \<Rightarrow> None
           | Some e \<Rightarrow>
               if e = [] then None
               else Some \<lparr>f_id = orderId, f_user = None, f_guestEmail = Some (toLowerCase e),
                          f_isGuest = Some True\<rparr>))"

text \<open>\<^verbatim>\<open>!orderId || orderId.length !== 24\<close>. Where this check has passed, the
  parameter is present and \<open>orElse (params_orderId req) []\<close> is its value.\<close>

definition badOrderId :: "string option \<Rightarrow> bool" where
  "badOrderId p = (case p of None \<Rightarrow> True | Some s \<Rightarrow> length s \<noteq> 24)"

subsection \<open>Order handlers\<close>

text \<open>Every handler returns what it sends: \<open>Inl\<close> the error given to \<^verbatim>\<open>next\<close>, \<open>Inr\<close>
  the order document the success response is built from. A handler that writes also
  returns the collection after the request.\<close>

definition getMyOrderById :: "request \<Rightarrow> order list \<Rightarrow> error + order" where
  "getMyOrderById req db =
     (if badOrderId (params_orderId req) then
        Inl (AppError ''Please provide a valid order ID.'' 400)
      else
        (case accessQuery (req_user req) (query_guestEmail req) (orElse (params_orderId req) []) of
           None \<Rightarrow> Inl (AppError ''Please provide your email to view this order.'' 400)
         | Some q \<Rightarrow>
             (case findOne q db of
                Inl e \<Rightarrow> Inl e
              | Inr None \<Rightarrow> Inl (AppError ''No order found with that ID for your account.'' 404)
              | Inr (Some d) \<Rightarrow> Inr d)))"

definition cancelMyOrder :: "timestamp \<Rightarrow> request \<Rightarrow> order list \<Rightarrow> (error + order) \<times> order list" where
  "cancelMyOrder now req db =
     (if badOrderId (params_orderId req) then
        (Inl (AppError ''Please provide a valid order ID.'' 400), db)
      else
        (case accessQuery (req_user req) (body_guestEmail req) (orElse (params_orderId req) []) of
           None \<Rightarrow> (Inl (AppError ''Please provide your email to cancel this order.'' 400), db)
         | Some q \<Rightarrow>
             (case findOne q db of
                Inl e \<Rightarrow> (Inl e, db)
              | Inr None \<Rightarrow>
                  (Inl (AppError ''No order found with this ID for your account.'' 404), db)
              | Inr (Some d) \<Rightarrow>
                  if status d = ''cancelled'' \<or> isCancelled d then
                    (Inl (AppError ''This order has already been cancelled.'' 400), db)
                  else if status d = ''delivered'' \<or> isDelivered d then
                    (Inl (AppError ''Delivered orders cannot be cancelled.'' 400), db)
                  else if status d = ''shipped'' \<and> paymentStatus d = ''paid'' then
                    (Inl (AppError ''Shipped and paid orders cannot be cancelled.'' 400), db)
                  else
                    (let d' = d\<lparr>status := ''cancelled'', isCancelled := True,
                                 cancelledAt := Some now\<rparr>
                     in case saveOrder d' db of
                          Inl e \<Rightarrow> (Inl e, db)
                        | Inr db' \<Rightarrow> (Inr d', db')))))"

definition allowedStatuses :: "string list" where
  "allowedStatuses = [''processing'', ''confirmed'', ''shipped'', ''delivered'', ''cancelled'']"

text \<open>\<^verbatim>\<open>if (notes) order.notes = notes\<close>.\<close>

definition setNotes :: "string option \<Rightarrow> order \<Rightarrow> order" where
  "setNotes n d =
     (case n of None \<Rightarrow> d | Some s \<Rightarrow> if s = [] then d else d\<lparr>order_notes := Some s\<rparr>)"

definition updateOrderStatus ::
  "timestamp \<Rightarrow> request \<Rightarrow> order list \<Rightarrow> (error + order) \<times> order list" where
  "updateOrderStatus now req db =
     (if badOrderId (params_orderId req) then
        (Inl (AppError ''Please provide a valid order ID.'' 400), db)
      else if body_newStatus req = None \<or> body_newStatus req = Some [] then
        (Inl (AppError ''Please provide a new order status.'' 400), db)
      else
        (let newStatus = toLowerCase (orElse (body_newStatus req) [])
         in if newStatus \<notin> set allowedStatuses then
              (Inl (AppError (''Invalid status: '' @ newStatus) 400), db)
            else
              (case findById (orElse (params_orderId req) []) db of
                 Inl e \<Rightarrow> (Inl e, db)
               | Inr None \<Rightarrow> (Inl (AppError ''No order found with this ID.'' 404), db)
               | Inr (Some d) \<Rightarrow>
                   if status d \<in> set [''confirmed'', ''shipped'', ''delivered'']
                      \<and> newStatus = ''cancelled'' then
                     (Inl (AppError
                        ''You cannot cancel an order that is already confirmed or beyond.'' 400), db)
                   else if status d = ''delivered'' then
                     (Inl (AppError ''Delivered orders cannot be updated.'' 400), db)
                   else if status d = newStatus then
                     (Inl (AppError ''Order already has this status.'' 400), db)
                   else
                     (let d1 = d\<lparr>status := newStatus\<rparr>;
                          d2 = (if newStatus = ''cancelled''
                                then d1\<lparr>isCancelled := True, cancelledAt := Some now\<rparr> else d1);
                          d3 = (if newStatus = ''delivered''
                                then d2\<lparr>isDelivered := True, deliveredAt := Some now\<rparr> else d2);
                          d4 = setNotes (body_notes req) d3;
                          d5 = (if newStatus = ''delivered'' \<and> order_paymentMethod d4 = ''cash''
                                then d4\<lparr>isPaid := True, paidAt := Some now,
                                        paymentStatus := ''paid''\<rparr>
                                else d4)
                      in case saveOrder d5 db of
                           Inl e \<Rightarrow> (Inl e, db)
                         | Inr db' \<Rightarrow> (Inr d5, db')))))"

text \<open>The three admin handlers read \<^verbatim>\<open>req.user.role\<close>; without \<^verbatim>\<open>req.user\<close> that is a
  \<^verbatim>\<open>TypeError\<close>.\<close>

definition markOrderAsPaid ::
  "timestamp \<Rightarrow> request \<Rightarrow> order list \<Rightarrow> (error + order) \<times> order list" where
  "markOrderAsPaid now req db =
     (if badOrderId (params_orderId req) then
        (Inl (AppError ''Please provide a valid order ID.'' 400), db)
      else
        (case req_user req of
           None \<Rightarrow> (Inl (TypeError ''Cannot read properties of undefined''), db)
         | Some usr \<Rightarrow>
             if role usr \<noteq> ''admin'' then
               (Inl (AppError ''Only admins can mark orders as paid.'' 403), db)
             else
               (case findById (orElse (params_orderId req) []) db of
                  Inl e \<Rightarrow> (Inl e, db)
                | Inr None \<Rightarrow> (Inl (AppError ''No order found with this ID.'' 404), db)
                | Inr (Some d) \<Rightarrow>
                    if status d = ''cancelled'' \<or> isCancelled d then
                      (Inl (AppError
                         ''This order is cancelled and cannot be marked as paid.'' 400), db)
                    else if isPaid d then
                      (Inl (AppError ''Order is already marked as paid.'' 400), db)
                    else
                      (let d' = setNotes (body_notes req)
                                  (d\<lparr>isPaid := True, paidAt := Some now, isDelivered := True,
                                     status := ''delivered'', paymentStatus := ''paid''\<rparr>)
                       in case saveOrder d' db of
                            Inl e \<Rightarrow> (Inl e, db)
                          | Inr db' \<Rightarrow> (Inr d', db')))))"

definition markOrderAsDelivered ::
  "timestamp \<Rightarrow> request \<Rightarrow> order list \<Rightarrow> (error + order) \<times> order list" where
  "markOrderAsDelivered now req db =
     (if badOrderId (params_orderId req) then
        (Inl (AppError ''Please provide a valid order ID.'' 400), db)
      else
        (case req_user req of
           None \<Rightarrow> (Inl (TypeError ''Cannot read properties of undefined''), db)
         | Some usr \<Rightarrow>
             if role usr \<noteq> ''admin'' then
               (Inl (AppError ''Only admins can mark orders as delivered.'' 403), db)
             else
               (case findById (orElse (params_orderId req) []) db of
                  Inl e \<Rightarrow> (Inl e, db)
                | Inr None \<Rightarrow> (Inl (AppError ''Order not found.'' 404), db)
                | Inr (Some d) \<Rightarrow>
                    if status d = ''cancelled'' \<or> isCancelled d then
                      (Inl (AppError
                         ''This order was cancelled and cannot be marked as delivered.'' 400), db)
                    else if isDelivered d then
                      (Inl (AppError ''Order is already marked as delivered.'' 400), db)
                    else
                      (let d1 = setNotes (body_notes req)
                                  (d\<lparr>status := ''delivered'', isDelivered := True,
                                     deliveredAt := Some now\<rparr>);
                           d2 = (if order_paymentMethod d1 = ''cash'' \<and> \<not> isPaid d1
                                 then d1\<lparr>isPaid := True, paidAt := Some now,
                                         paymentStatus := ''paid''\<rparr>
                                 else d1)
                       in case saveOrder d2 db of
                            Inl e \<Rightarrow> (Inl e, db)
                          | Inr db' \<Rightarrow> (Inr d2, db')))))"

definition markOrderAsCancelled ::
  "timestamp \<Rightarrow> request \<Rightarrow> order list \<Rightarrow> (error + order) \<times> order list" where
  "markOrderAsCancelled now req db =
     (if badOrderId (params_orderId req) then
        (Inl (AppError ''Please provide a valid order ID.'' 400), db)
      else
        (case req_user req of
           None \<Rightarrow> (Inl (TypeError ''Cannot read properties of undefined''), db)
         | Some usr \<Rightarrow>
             if role usr \<noteq> ''admin'' then
               (Inl (AppError ''Only admins can cancel orders.'' 403), db)
             else
               (case findById (orElse (params_orderId req) []) db of
                  Inl e \<Rightarrow> (Inl e, db)
                | Inr None \<Rightarrow> (Inl (AppError ''Order not found.'' 404), db)
                | Inr (Some d) \<Rightarrow>
                    if status d = ''delivered'' then
                      (Inl (AppError ''Delivered orders cannot be cancelled.'' 400), db)
                    else if status d = ''cancelled'' \<or> isCancelled d then
                      (Inl (AppError ''Order is already cancelled.'' 400), db)
                    else
                      (let d' = setNotes (body_notes req)
                                  (d\<lparr>status := ''cancelled'', isCancelled := True,
                                     cancelledAt := Some now\<rparr>)
                       in case saveOrder d' db of
                            Inl e \<Rightarrow> (Inl e, db)
                          | Inr db' \<Rightarrow> (Inr d', db')))))"

section \<open>Notions used by the properties\<close>

subsection \<open>Sequences of cart operations\<close>

datatype cartOp =
    AddItem itemData
  | RemoveItem "objectId option"
  | UpdateItemQuantity "objectId option" number

fun applyOp :: "timestamp \<Rightarrow> cartOp \<Rightarrow> cart \<Rightarrow> (error + unit) \<times> cart" where
  "applyOp now (AddItem d) c = addItem now d c"
| "applyOp now (RemoveItem i) c = removeItem now i c"
| "applyOp now (UpdateItemQuantity i q) c = updateItemQuantity now i q c"

text \<open>A sequence of calls, each at its own time; the result is the cart after the last
  call when every call succeeds.\<close>

fun runOps :: "(timestamp \<times> cartOp) list \<Rightarrow> cart \<Rightarrow> cart option" where
  "runOps [] c = Some c"
| "runOps ((now, x) # xs) c =
     (case applyOp now x c of (Inl e, c') \<Rightarrow> None | (Inr u, c') \<Rightarrow> runOps xs c')"

text \<open>The sum of price times quantity over the lines in double arithmetic: each product
  is rounded to a double, and they are added from the first line on, to zero, each sum
  rounded to a double. \<open>None\<close> is NaN.\<close>

definition linesTotal :: "cartItem list \<Rightarrow> number option" where
  "linesTotal its =
     foldl (\<lambda>acc it. addProduct acc (jsmul (price it) (quantity it))) (Some (Num 0)) its"

text \<open>The totals agree with the lines: \<^verbatim>\<open>subtotal\<close> is the double sum of the lines,
  written with two decimals and read back, and \<^verbatim>\<open>totalAmount\<close> is the double sum of
  \<^verbatim>\<open>subtotal\<close> and \<^verbatim>\<open>shippingCost\<close>, written with two decimals and read back.\<close>

definition totalsConsistent :: "cart \<Rightarrow> bool" where
  "totalsConsistent c =
     (map_option toFixed2 (linesTotal (items c)) = Some (subtotal c)
      \<and> map_option toFixed2 (jsadd (subtotal c) (shippingCost c)) = Some (totalAmount c))"

subsection \<open>Totals in exact arithmetic\<close>

text \<open>The sum of price times quantity over the lines as a rational number, for lines
  whose prices and quantities are finite, and the rounding of a non-negative rational to
  two decimal places, a half going up.\<close>

fun finiteValue :: "number \<Rightarrow> rat option" where
  "finiteValue (Num x) = Some x"
| "finiteValue _ = None"

fun exactTotal :: "cartItem list \<Rightarrow> rat option" where
  "exactTotal [] = Some 0"
| "exactTotal (it # its) =
     (case (finiteValue (price it), finiteValue (quantity it), exactTotal its) of
        (Some p, Some q, Some t) \<Rightarrow> Some (p * q + t)
      | _ \<Rightarrow> None)"

definition roundCents :: "rat \<Rightarrow> rat" where
  "roundCents x = of_int \<lfloor>x * 100 + 1 / 2\<rfloor> / 100"

subsection \<open>Example documents\<close>

definition mugData :: itemData where
  "mugData =
     \<lparr>data_product = ''aaaaaaaaaaaaaaaaaaaaaaaa'', data_name = ''Mug'',
      data_quantity = Num 2, data_price = Num 10, data_image = [], data_variant = None\<rparr>"

definition penData :: itemData where
  "penData =
     \<lparr>data_product = ''bbbbbbbbbbbbbbbbbbbbbbbb'', data_name = ''Pen'',
      data_quantity = Num 3, data_price = Num 5, data_image = [], data_variant = None\<rparr>"

text \<open>A cap at 7.99: the price is the double nearest to 7.99.\<close>

definition capData :: itemData where
  "capData =
     \<lparr>data_product = ''eeeeeeeeeeeeeeeeeeeeeeee'', data_name = ''Cap'',
      data_quantity = Num 1, data_price = Num (4497970127836283 / 562949953421312),
      data_image = [], data_variant = None\<rparr>"

text \<open>Fifteen washers at 0.001 each: the price is the double nearest to 0.001.\<close>

definition washerData :: itemData where
  "washerData =
     \<lparr>data_product = ''121212121212121212121212'', data_name = ''Washer'',
      data_quantity = Num 15, data_price = Num (1152921504606847 / 1152921504606846976),
      data_image = [], data_variant = None\<rparr>"

text \<open>A shirt in the variant Red, as the cart controller passes it.\<close>

definition shirtData :: itemData where
  "shirtData =
     \<lparr>data_product = ''5e5e5e5e5e5e5e5e5e5e5e5e'', data_name = ''Shirt - Red'',
      data_quantity = Num 1, data_price = Num 12, data_image = [],
      data_variant =
        Some (controllerVariant ''7a7a7a7a7a7a7a7a7a7a7a7a'' ''Red'' (Num 12) (Some ''R1''))\<rparr>"

definition emptyCart :: cart where
  "emptyCart =
     \<lparr>user = Some ''cccccccccccccccccccccccc'', isGuest = False, guestEmail = None, items = [],
      paymentMethod = None, subtotal = Num 0, shippingCost = Num 5, totalAmount = Num 0,
      isConverted = False, lastUpdated = 0\<rparr>"

definition mugCart :: cart where
  "mugCart =
     emptyCart\<lparr>items := [newItem 1 mugData], subtotal := Num 20, totalAmount := Num 25,
               lastUpdated := 1\<rparr>"

definition shoppingOps :: "(timestamp \<times> cartOp) list" where
  "shoppingOps =
     [(1, AddItem mugData), (2, AddItem penData), (3, AddItem capData),
      (4, UpdateItemQuantity (Some ''bbbbbbbbbbbbbbbbbbbbbbbb'') (Num 1)),
      (5, RemoveItem (Some ''eeeeeeeeeeeeeeeeeeeeeeee'')),
      (6, AddItem washerData)]"

text \<open>The cart after these operations: its totals are the doubles nearest to 25.02 and
  to 30.02.\<close>

definition shoppedCart :: cart where
  "shoppedCart =
     emptyCart\<lparr>items := [newItem 1 mugData, (newItem 2 penData)\<lparr>quantity := Num 1\<rparr>,
                          newItem 6 washerData],
               subtotal := Num (7042503917300613 / 281474976710656),
               totalAmount := Num (8449878800853893 / 281474976710656),
               lastUpdated := 6\<rparr>"

text \<open>The cart that holds the washers only: its totals are the doubles nearest to 0.01
  and to 5.01.\<close>

definition washerCart :: cart where
  "washerCart =
     emptyCart\<lparr>items := [newItem 1 washerData],
               subtotal := Num (5764607523034235 / 576460752303423488),
               totalAmount := Num (2820379266640773 / 562949953421312),
               lastUpdated := 1\<rparr>"

text \<open>The cart that holds the shirt, and the cart after the shirt is added again.\<close>

definition shirtCart :: cart where
  "shirtCart =
     emptyCart\<lparr>items := [newItem 1 shirtData], subtotal := Num 12, totalAmount := Num 17,
               lastUpdated := 1\<rparr>"

definition twoShirtsCart :: cart where
  "twoShirtsCart =
     emptyCart\<lparr>items := [newItem 1 shirtData, newItem 2 shirtData], subtotal := Num 24,
               totalAmount := Num 29, lastUpdated := 2\<rparr>"

definition homeAddress :: shippingAddress where
  "homeAddress =
     \<lparr>fullName = ''Ada Lovelace'', phone = ''5550100'', country = ''UK'', city = ''London'',
      street = ''12 St James Square'', postalCode = ''SW1Y'', address_notes = []\<rparr>"

definition noPaymentInput :: paymentInput where
  "noPaymentInput =
     \<lparr>in_paymentID = None, in_payerEmail = None, in_cardLast4 = None, in_receiptUrl = None\<rparr>"

definition orderIdA :: objectId where
  "orderIdA = ''0123456789abcdef01234567''"

definition orderIdB :: objectId where
  "orderIdB = ''0123456789abcdef01234568''"

definition cardOrder :: order where
  "cardOrder = newOrder orderIdA (buildOrderData 10 noPaymentInput homeAddress ''card'' mugCart)"

definition convertedMugCart :: cart where
  "convertedMugCart = mugCart\<lparr>isConverted := True, lastUpdated := 10\<rparr>"

definition adminUser :: reqUser where
  "adminUser = \<lparr>user_id = ''ffffffffffffffffffffffff'', role = ''admin''\<rparr>"

definition cartOwner :: reqUser where
  "cartOwner = \<lparr>user_id = ''cccccccccccccccccccccccc'', role = ''user''\<rparr>"

definition otherUser :: reqUser where
  "otherUser = \<lparr>user_id = ''999999999999999999999999'', role = ''user''\<rparr>"

text \<open>A request by \<open>u\<close> for the order \<open>orderId\<close>, with an empty body and query.\<close>

definition requestFor :: "reqUser option \<Rightarrow> string \<Rightarrow> request" where
  "requestFor u orderId =
     \<lparr>req_user = u, params_orderId = Some orderId, body_newStatus = None, body_notes = None,
      body_guestEmail = None, query_guestEmail = None\<rparr>"

definition cancelledOrder :: order where
  "cancelledOrder = cardOrder\<lparr>status := ''cancelled'', isCancelled := True, cancelledAt := Some 20\<rparr>"

definition confirmedOrder :: order where
  "confirmedOrder = cardOrder\<lparr>status := ''confirmed''\<rparr>"

definition shippedPaidOrder :: order where
  "shippedPaidOrder = cardOrder\<lparr>status := ''shipped'', paymentStatus := ''paid''\<rparr>"

definition unpaidOrder :: order where
  "unpaidOrder = cardOrder\<lparr>order_paymentMethod := ''cash'', isPaid := False, paidAt := None\<rparr>"

definition paidOrder :: order where
  "paidOrder =
     unpaidOrder\<lparr>isPaid := True, paidAt := Some 30, isDelivered := True,
                 status := ''delivered'', paymentStatus := ''paid''\<rparr>"

definition customerCancelledOrder :: order where
  "customerCancelledOrder =
     confirmedOrder\<lparr>status := ''cancelled'', isCancelled := True, cancelledAt := Some 30\<rparr>"

definition guestCart :: cart where
  "guestCart = mugCart\<lparr>user := None, isGuest := True, guestEmail := Some ''a@b.com''\<rparr>"

definition guestOrder :: order where
  "guestOrder =
     newOrder orderIdB (buildOrderData 12 noPaymentInput homeAddress ''paypal'' guestCart)"

text \<open>A request without identity that supplies a guest email in the query.\<close>

definition guestRequest :: "string \<Rightarrow> string \<Rightarrow> request" where
  "guestRequest email orderId = (requestFor None orderId)\<lparr>query_guestEmail := Some email\<rparr>"

subsection \<open>Operations on a stored order\<close>

text \<open>The handlers of the controller that write \<^verbatim>\<open>status\<close>, the payment fields or the
  cancellation fields of an order. (The other handlers that save an order write only
  \<^verbatim>\<open>invoiceURL\<close>, the tracking fields or the deletion fields.)\<close>

datatype orderOp =
    UpdateOrderStatus
  | MarkOrderAsPaid
  | MarkOrderAsDelivered
  | MarkOrderAsCancelled
  | CancelMyOrder

fun runOrderOp ::
  "timestamp \<Rightarrow> orderOp \<Rightarrow> request \<Rightarrow> order list \<Rightarrow> (error + order) \<times> order list" where
  "runOrderOp now UpdateOrderStatus req db = updateOrderStatus now req db"
| "runOrderOp now MarkOrderAsPaid req db = markOrderAsPaid now req db"
| "runOrderOp now MarkOrderAsDelivered req db = markOrderAsDelivered now req db"
| "runOrderOp now MarkOrderAsCancelled req db = markOrderAsCancelled now req db"
| "runOrderOp now CancelMyOrder req db = cancelMyOrder now req db"

text \<open>A write that leaves every stored \<^verbatim>\<open>paymentStatus\<close> as it was: nothing is written,
  or one document is replaced by a document with the same \<^verbatim>\<open>_id\<close> and \<^verbatim>\<open>paymentStatus\<close>.\<close>

definition keepsPaymentStatus :: "order list \<Rightarrow> order list \<Rightarrow> bool" where
  "keepsPaymentStatus db db' =
     (db' = db \<or> (\<exists>d\<in>set db. \<exists>d'. order_id d' = order_id d \<and> paymentStatus d' = paymentStatus d
        \<and> db' = map (\<lambda>x. if order_id x = order_id d' then d' else x) db))"

section \<open>Properties\<close>

subsection \<open>Evaluation of doubles and of the example strings\<close>

lemma floor_rat_numeral: "\<lfloor>(numeral a / numeral b :: rat)\<rfloor> = numeral a div numeral b"
  using floor_divide_of_int_eq[of "numeral a" "numeral b", where ?'a = rat] by simp

lemma bitLength_numeral: "bitLength (numeral k) = Suc (bitLength (numeral k div 2))"
  by (subst bitLength.simps) simp

lemma bitLength_0: "bitLength 0 = 0"
  by (subst bitLength.simps) simp

lemma bitLength_1: "bitLength 1 = 1"
  by (subst bitLength.simps) (simp add: bitLength_0)

lemma bitLength_Suc_0: "bitLength (Suc 0) = 1"
  using bitLength_1 by simp

lemmas double_eval =
  roundToDouble_def roundPositive_def roundWithExponent_def fromMantissa_def ulpExponent_def
  roundHalfEven_def roundTie_def exponent_def exponentBelowOne_def pow2_def hundredths_def
  floor_rat_numeral bitLength_numeral bitLength_0 bitLength_1 bitLength_Suc_0

text \<open>Checks of the rounding against values computed by a JavaScript engine:
  \<^verbatim>\<open>0.001 * 15\<close> is the double nearest to 0.015, which lies below 0.015, and
  \<^verbatim>\<open>(0.015).toFixed(2)\<close> is \<^verbatim>\<open>'0.01'\<close>; \<^verbatim>\<open>(1.005).toFixed(2)\<close> is \<^verbatim>\<open>'1.00'\<close>;
  \<^verbatim>\<open>(0.125).toFixed(2)\<close> is \<^verbatim>\<open>'0.13'\<close> and \<^verbatim>\<open>(-2.5).toFixed(2)\<close> is \<^verbatim>\<open>'-2.50'\<close>;
  \<^verbatim>\<open>0.1 + 0.2\<close> is not the double nearest to 0.3.\<close>

lemma jsmul_washers:
  "jsmul (Num (1152921504606847 / 1152921504606846976)) (Num 15)
     = Some (Num (1080863910568919 / 72057594037927936))"
  by (simp add: double_eval)

lemma toFixed2_examples:
  "toFixed2 (Num (1080863910568919 / 72057594037927936))
     = Num (5764607523034235 / 576460752303423488)"
  "toFixed2 (Num (1131529406376837 / 1125899906842624)) = Num 1"
  "toFixed2 (Num (1 / 8)) = Num (1170935903116329 / 9007199254740992)"
  "toFixed2 (Num (- 5 / 2)) = Num (- 5 / 2)"
  by (simp_all add: double_eval)

lemma jsadd_tenths:
  "jsadd (Num (3602879701896397 / 36028797018963968)) (Num (3602879701896397 / 18014398509481984))
     = Some (Num (1351079888211149 / 4503599627370496))"
  "roundToDouble (3 / 10) = Num (5404319552844595 / 18014398509481984)"
  by (simp_all add: double_eval)

lemma lower_examples:
  "toLowerCase ''aaaaaaaaaaaaaaaaaaaaaaaa'' = ''aaaaaaaaaaaaaaaaaaaaaaaa''"
  "toLowerCase ''bbbbbbbbbbbbbbbbbbbbbbbb'' = ''bbbbbbbbbbbbbbbbbbbbbbbb''"
  "toLowerCase ''eeeeeeeeeeeeeeeeeeeeeeee'' = ''eeeeeeeeeeeeeeeeeeeeeeee''"
  "toLowerCase ''121212121212121212121212'' = ''121212121212121212121212''"
  "toLowerCase ''5e5e5e5e5e5e5e5e5e5e5e5e'' = ''5e5e5e5e5e5e5e5e5e5e5e5e''"
  by code_simp+

lemma objectId_examples:
  "castObjectId ''aaaaaaaaaaaaaaaaaaaaaaaa'' = Some ''aaaaaaaaaaaaaaaaaaaaaaaa''"
  "castObjectId ''bbbbbbbbbbbbbbbbbbbbbbbb'' = Some ''bbbbbbbbbbbbbbbbbbbbbbbb''"
  "castObjectId ''eeeeeeeeeeeeeeeeeeeeeeee'' = Some ''eeeeeeeeeeeeeeeeeeeeeeee''"
  "castObjectId ''121212121212121212121212'' = Some ''121212121212121212121212''"
  "castObjectId ''5e5e5e5e5e5e5e5e5e5e5e5e'' = Some ''5e5e5e5e5e5e5e5e5e5e5e5e''"
  by code_simp+

lemma trim_examples:
  "trim ''Mug'' = ''Mug''" "trim ''Pen'' = ''Pen''" "trim ''Cap'' = ''Cap''"
  "trim ''Washer'' = ''Washer''" "trim ''Shirt - Red'' = ''Shirt - Red''"
  "trim ''Red'' = ''Red''" "trim ''R1'' = ''R1''" "toUpperCase ''R1'' = ''R1''"
  by code_simp+

text \<open>The setters do change what is stored.\<close>

lemma setter_examples:
  "trim ''  Red '' = ''Red''" "toUpperCase ''r1-x'' = ''R1-X''"
  "toLowerCase ''5E5E5e5e5e5e5e5e5e5e5E5E'' = ''5e5e5e5e5e5e5e5e5e5e5e5e''"
  by code_simp+

lemmas cart_eval =
  addItem_def removeItem_def updateItemQuantity_def calculateTotals_def stampAndSave_def
  assignTotal_def assignSubtotal_def saveAfter_def save_def validCart_def validCartItem_def
  validGuestEmail_def nonNegative_def paymentMethods_def addProduct_def isZero_def
  sameLine_def removeMatch_def updateMatch_def variant_id_def addQuantity_def splice1_def
  newItem_def castVariant_def variantOrEmpty_def stringifyRaw_def stringifyVariant_def
  controllerVariant_def orElse_def lower_examples objectId_examples trim_examples

subsection \<open>Lists and totals\<close>

lemma findIndex_Some:
  "findIndex P xs = Some i \<Longrightarrow> i < length xs \<and> P (xs ! i) \<and> (\<forall>j<i. \<not> P (xs ! j))"
proof (induction xs arbitrary: i)
  case Nil
  then show ?case by simp
next
  case (Cons x xs)
  show ?case
  proof (cases "P x")
    case True
    with Cons.prems show ?thesis by simp
  next
    case False
    with Cons.prems obtain k where k: "findIndex P xs = Some k" and i: "i = Suc k"
      by auto
    from Cons.IH[OF k] False i show ?thesis
      by (auto simp: less_Suc_eq_0_disj)
  qed
qed

lemma findIndex_None: "findIndex P xs = None \<longleftrightarrow> (\<forall>x\<in>set xs. \<not> P x)"
  by (induction xs) auto

text \<open>The loop of \<^verbatim>\<open>calculateTotals\<close>, when it does not throw, computes the double sum.\<close>

lemma sumItems_foldl:
  "sumItems its acc = Inr s \<Longrightarrow>
   s = foldl (\<lambda>acc it. addProduct acc (jsmul (price it) (quantity it))) acc its"
proof (induction its arbitrary: acc)
  case Nil
  then show ?case by simp
next
  case (Cons a its)
  from Cons.prems
  have "sumItems its (addProduct acc (jsmul (price a) (quantity a))) = Inr s"
    by (simp split: if_splits)
  then show ?case using Cons.IH by simp
qed

lemma sumItems_total: "sumItems its (Some (Num 0)) = Inr s \<Longrightarrow> s = linesTotal its"
  unfolding linesTotal_def by (rule sumItems_foldl)

text \<open>A line with price or quantity zero makes \<^verbatim>\<open>calculateTotals\<close> throw.\<close>

lemma sumItems_zero:
  "it \<in> set its \<Longrightarrow> isZero (price it) \<or> isZero (quantity it) \<Longrightarrow>
   sumItems its acc = Inl (AppError ''Invalid item in cart'' 400)"
  by (induction its arbitrary: acc) auto

lemma calculateTotals_consistent:
  assumes "calculateTotals now c = (Inr u, c')"
  shows "totalsConsistent c' \<and> items c' = items c"
proof -
  from assms obtain s where s: "sumItems (items c) (Some (Num 0)) = Inr s"
    and run: "stampAndSave now (assignTotal (assignSubtotal s c)) = (Inr u, c')"
    by (auto simp: calculateTotals_def split: sum.splits)
  from run obtain v where v: "s = Some v"
    by (cases s)
      (auto simp: stampAndSave_def saveAfter_def assignTotal_def assignSubtotal_def
        split: option.splits if_splits)
  from run v obtain t where t: "jsadd (toFixed2 v) (shippingCost c) = Some t"
    by (cases "jsadd (toFixed2 v) (shippingCost c)")
      (auto simp: stampAndSave_def saveAfter_def assignTotal_def assignSubtotal_def
        split: if_splits)
  from run v t have c': "c' = c\<lparr>subtotal := toFixed2 v, totalAmount := toFixed2 t,
                                 lastUpdated := now\<rparr>"
    by (auto simp: stampAndSave_def saveAfter_def assignTotal_def assignSubtotal_def
        split: if_splits)
  from sumItems_total[OF s] v have "linesTotal (items c) = Some v" by simp
  with c' t show ?thesis by (simp add: totalsConsistent_def)
qed

lemma calculateTotals_items: "items (snd (calculateTotals now c)) = items c"
  by (simp add: calculateTotals_def stampAndSave_def saveAfter_def assignTotal_def
      assignSubtotal_def split: sum.splits option.splits)

lemma applyOp_consistent: "applyOp now x c = (Inr u, c') \<Longrightarrow> totalsConsistent c'"
  by (cases x)
    (auto simp: addItem_def removeItem_def updateItemQuantity_def
      split: if_splits option.splits dest: calculateTotals_consistent)

subsection \<open>Cart totals\<close>

text \<open>
  Claim C1, as stated: after operations that succeed, \<^verbatim>\<open>subtotal\<close> is the sum of price
  times quantity over the lines, rounded to two decimal places. It is not: put fifteen
  washers at 0.001 into the empty cart. The call succeeds; the sum of price times
  quantity, for the price that is stored, rounds to 0.02; and \<^verbatim>\<open>subtotal\<close> is the double
  nearest to 0.01, half the double nearest to 0.02. The product \<^verbatim>\<open>0.001 * 15\<close> is
  rounded to a double below 0.015 before \<^verbatim>\<open>toFixed(2)\<close> reads it.
\<close>

theorem cart_subtotal_counterexample:
  "addItem 1 washerData emptyCart = (Inr (), washerCart)
   \<and> map_option roundCents (exactTotal (items washerCart)) = Some (1 / 50)
   \<and> roundToDouble (1 / 50) = Num (5764607523034235 / 288230376151711744)
   \<and> subtotal washerCart = Num (5764607523034235 / 576460752303423488)
   \<and> jsmul (data_price washerData) (data_quantity washerData)
       = Some (Num (1080863910568919 / 72057594037927936))
   \<and> 1080863910568919 / 72057594037927936 < (15 / 1000 :: rat)"
proof -
  have product: "jsmul (data_price washerData) (data_quantity washerData)
      = Some (Num (1080863910568919 / 72057594037927936))
      \<and> 1080863910568919 / 72057594037927936 < (15 / 1000 :: rat)"
    by (simp add: washerData_def double_eval)
  have add: "addItem 1 washerData emptyCart = (Inr (), washerCart)"
    by (simp add: cart_eval double_eval washerData_def emptyCart_def washerCart_def)
  have exact: "map_option roundCents (exactTotal (items washerCart)) = Some (1 / 50)"
    by (simp add: washerCart_def emptyCart_def newItem_def washerData_def roundCents_def
        floor_rat_numeral)
  have nearest: "roundToDouble (1 / 50) = Num (5764607523034235 / 288230376151711744)"
    by (simp add: double_eval)
  have code: "subtotal washerCart = Num (5764607523034235 / 576460752303423488)"
    by (simp add: washerCart_def)
  from add exact nearest code product show ?thesis
    by simp
qed

text \<open>
  Claim C1, amended. Take any cart and any sequence of \<^verbatim>\<open>addItem\<close>, \<^verbatim>\<open>removeItem\<close> and
  \<^verbatim>\<open>updateItemQuantity\<close> calls that all succeed. If the sequence is not empty (or the
  totals agreed with the lines to begin with, as in a new cart), then afterwards
  \<^verbatim>\<open>subtotal\<close> is the sum of price times quantity over the lines as double arithmetic
  computes it (each product and each partial sum, from the first line on, rounded to
  the nearest double), written with two decimals by \<^verbatim>\<open>toFixed(2)\<close> and read back as a
  double; and \<^verbatim>\<open>totalAmount\<close> is the double sum of \<^verbatim>\<open>subtotal\<close> and \<^verbatim>\<open>shippingCost\<close>,
  written and read back the same way. Neither sum is NaN.
\<close>

theorem cart_totals_after_operations:
  "runOps ops c = Some c' \<Longrightarrow> ops \<noteq> [] \<or> totalsConsistent c \<Longrightarrow> totalsConsistent c'"
proof (induction ops arbitrary: c)
  case Nil
  then show ?case by simp
next
  case (Cons a ops)
  obtain now x where a: "a = (now, x)" by (cases a)
  from Cons.prems(1) a obtain u c1 where
    step: "applyOp now x c = (Inr u, c1)" and rest: "runOps ops c1 = Some c'"
    by (auto split: prod.splits sum.splits)
  from step have "totalsConsistent c1" by (rule applyOp_consistent)
  with rest show ?case using Cons.IH by blast
qed

text \<open>Six operations that leave two mugs at 10, one pen at 5 and fifteen washers at
  0.001, with shipping cost 5. The double sum of the lines is the double nearest to
  25.015, which lies above 25.015: \<^verbatim>\<open>subtotal\<close> is the double nearest to 25.02 and
  \<^verbatim>\<open>totalAmount\<close> the double nearest to 30.02.\<close>

theorem cart_totals_after_operations_witness:
  "runOps shoppingOps emptyCart = Some shoppedCart
   \<and> shoppingOps \<noteq> []
   \<and> linesTotal (items shoppedCart) = Some (Num (1760274135604265 / 70368744177664))
   \<and> subtotal shoppedCart = Num (7042503917300613 / 281474976710656)
   \<and> totalAmount shoppedCart = Num (8449878800853893 / 281474976710656)
   \<and> totalsConsistent shoppedCart"
proof -
  have run: "runOps shoppingOps emptyCart = Some shoppedCart"
    by (simp add: cart_eval double_eval shoppingOps_def mugData_def penData_def capData_def
        washerData_def emptyCart_def shoppedCart_def)
  have ne: "shoppingOps \<noteq> []"
    by (simp add: shoppingOps_def)
  have lines: "linesTotal (items shoppedCart) = Some (Num (1760274135604265 / 70368744177664))"
    by (simp add: linesTotal_def shoppedCart_def emptyCart_def newItem_def mugData_def
        penData_def washerData_def addProduct_def double_eval)
  have amounts: "subtotal shoppedCart = Num (7042503917300613 / 281474976710656)
      \<and> totalAmount shoppedCart = Num (8449878800853893 / 281474976710656)"
    by (simp add: shoppedCart_def emptyCart_def)
  from ne have "shoppingOps \<noteq> [] \<or> totalsConsistent emptyCart" ..
  with run have "totalsConsistent shoppedCart"
    by (rule cart_totals_after_operations)
  with run ne lines amounts show ?thesis
    by simp
qed

subsection \<open>Adding a line\<close>

text \<open>What \<^verbatim>\<open>addItem\<close> does to the lines of a cart that is not converted: the first line
  that its predicate accepts gets the quantity added, and without such a line the new
  line is appended.\<close>

lemma addItem_items:
  assumes "\<not> isConverted c"
  shows "items (snd (addItem now d c)) =
           (case findIndex (sameLine d) (items c) of
              Some i \<Rightarrow> (items c)[i := addQuantity (data_quantity d) (items c ! i)]
            | None \<Rightarrow> items c @ [newItem now d])"
  using assms by (simp add: addItem_def calculateTotals_items split: option.splits)

text \<open>The JSON text of a stored variant has the keys of the schema only, and \<^verbatim>\<open>_id\<close> is
  none of them.\<close>

lemma jsonString_key: "(k', x) \<in> set (jsonString k f) \<Longrightarrow> k' = k"
  by (cases f) auto

lemma jsonNumberField_key: "(k', x) \<in> set (jsonNumberField k f) \<Longrightarrow> k' = k"
  by (cases f) auto

lemma stringifyVariant_no_id: "(''_id'', x) \<notin> set (stringifyVariant v)"
  by (auto simp: stringifyVariant_def dest: jsonString_key jsonNumberField_key)

text \<open>The variant object of the cart controller starts with the key \<^verbatim>\<open>_id\<close>: its JSON
  text is the text of no stored variant, so no line of any cart is the same line as an
  item that the controller passes with a variant, and \<^verbatim>\<open>addItem\<close> appends.\<close>

lemma controllerVariant_no_line:
  assumes "data_variant d = Some (controllerVariant vid n p s)"
  shows "\<not> sameLine d it"
proof
  assume "sameLine d it"
  with assms have
    "stringifyVariant (item_variant it) = stringifyRaw (controllerVariant vid n p s)"
    by (simp add: sameLine_def variantOrEmpty_def)
  then have "(''_id'', JStr vid) \<in> set (stringifyVariant (item_variant it))"
    by (simp add: stringifyRaw_def controllerVariant_def)
  then show False by (simp add: stringifyVariant_no_id)
qed

lemma addItem_controllerVariant_appends:
  assumes "\<not> isConverted c" and "data_variant d = Some (controllerVariant vid n p s)"
  shows "items (snd (addItem now d c)) = items c @ [newItem now d]"
proof -
  from assms(2) have "\<forall>it\<in>set (items c). \<not> sameLine d it"
    by (simp add: controllerVariant_no_line)
  then have "findIndex (sameLine d) (items c) = None" by (simp add: findIndex_None)
  with assms(1) show ?thesis by (simp add: addItem_items)
qed

text \<open>An item without a variant is merged with the line of its product that has no
  variant: two mugs added to the cart of two mugs give one line of four, and a pen gives
  a second line. So is an item whose variant object has the keys of the schema in the
  order of the schema and the values as they are stored.\<close>

lemma addItem_plain_merges:
  "items (snd (addItem 9 mugData mugCart)) = [(newItem 1 mugData)\<lparr>quantity := Num 4\<rparr>]"
  "items (snd (addItem 9 penData mugCart)) = [newItem 1 mugData, newItem 9 penData]"
  by (simp_all add: addItem_items mugCart_def emptyCart_def mugData_def penData_def
      sameLine_def newItem_def castVariant_def variantOrEmpty_def stringifyRaw_def
      stringifyVariant_def addQuantity_def lower_examples trim_examples
      double_eval)

lemma addItem_schema_variant_merges:
  "items (snd (addItem 2 (shirtData\<lparr>data_variant := Some [RName (Val ''Red''), RSku (Val ''R1''),
              RPrice (Val (Num 12))]\<rparr>)
            (shirtCart\<lparr>items := [newItem 1 (shirtData\<lparr>data_variant :=
              Some [RName (Val ''Red''), RSku (Val ''R1''), RPrice (Val (Num 12))]\<rparr>)]\<rparr>)))
     = [(newItem 1 (shirtData\<lparr>data_variant := Some [RName (Val ''Red''), RSku (Val ''R1''),
              RPrice (Val (Num 12))]\<rparr>))\<lparr>quantity := Num 2\<rparr>]"
  by (simp add: addItem_items shirtCart_def emptyCart_def shirtData_def
      sameLine_def newItem_def castVariant_def variantOrEmpty_def stringifyRaw_def
      stringifyVariant_def addQuantity_def lower_examples trim_examples double_eval)

text \<open>
  Claim C7. Adding an item whose product and variant selection are those of a line of
  the cart should add to the quantity of that line and leave the number of lines
  unchanged. Take the empty cart and the shirt in the variant Red as the cart controller
  passes it, \<^verbatim>\<open>{_id, name: 'Red', price: 12, sku: 'R1'}\<close>. The first \<^verbatim>\<open>addItem\<close> stores the
  line with the variant \<^verbatim>\<open>{name: 'Red', sku: 'R1', price: 12}\<close>: the schema has no \<^verbatim>\<open>_id\<close>
  in the variant and orders the keys its own way. The second \<^verbatim>\<open>addItem\<close>, with the very
  same argument, compares the JSON text of the stored variant with the JSON text of the
  argument, finds them different, and appends a second line for the same product and
  variant: the cart has two lines of quantity one, not one line of quantity two.
\<close>

theorem addItem_same_variant_twice:
  "addItem 1 shirtData emptyCart = (Inr (), shirtCart)
   \<and> items shirtCart = [newItem 1 shirtData]
   \<and> addItem 2 shirtData shirtCart = (Inr (), twoShirtsCart)
   \<and> items twoShirtsCart = [newItem 1 shirtData, newItem 2 shirtData]
   \<and> item_product (newItem 2 shirtData) = item_product (newItem 1 shirtData)
   \<and> item_variant (newItem 2 shirtData) = item_variant (newItem 1 shirtData)
   \<and> quantity (newItem 1 shirtData) = Num 1
   \<and> stringifyVariant (item_variant (newItem 1 shirtData))
       = [(''name'', JStr ''Red''), (''sku'', JStr ''R1''), (''price'', JNum (Num 12))]
   \<and> stringifyRaw (variantOrEmpty (data_variant shirtData))
       = [(''_id'', JStr ''7a7a7a7a7a7a7a7a7a7a7a7a''), (''name'', JStr ''Red''),
          (''price'', JNum (Num 12)), (''sku'', JStr ''R1'')]"
proof -
  have first: "addItem 1 shirtData emptyCart = (Inr (), shirtCart)"
    by (simp add: cart_eval double_eval shirtData_def emptyCart_def shirtCart_def)
  have second: "addItem 2 shirtData shirtCart = (Inr (), twoShirtsCart)"
    by (simp add: cart_eval double_eval shirtData_def emptyCart_def shirtCart_def
        twoShirtsCart_def)
  have lines: "items shirtCart = [newItem 1 shirtData]
      \<and> items twoShirtsCart = [newItem 1 shirtData, newItem 2 shirtData]"
    by (simp add: shirtCart_def twoShirtsCart_def emptyCart_def)
  have same: "item_product (newItem 2 shirtData) = item_product (newItem 1 shirtData)
      \<and> item_variant (newItem 2 shirtData) = item_variant (newItem 1 shirtData)
      \<and> quantity (newItem 1 shirtData) = Num 1"
    by (simp add: newItem_def shirtData_def)
  have stored: "stringifyVariant (item_variant (newItem 1 shirtData))
      = [(''name'', JStr ''Red''), (''sku'', JStr ''R1''), (''price'', JNum (Num 12))]"
    by (simp add: cart_eval shirtData_def)
  have raw: "stringifyRaw (variantOrEmpty (data_variant shirtData))
      = [(''_id'', JStr ''7a7a7a7a7a7a7a7a7a7a7a7a''), (''name'', JStr ''Red''),
         (''price'', JNum (Num 12)), (''sku'', JStr ''R1'')]"
    by (simp add: cart_eval shirtData_def)
  from first second lines same stored raw show ?thesis
    by simp
qed

subsection \<open>Removing a line that is not there\<close>

lemma removeItem_no_match:
  "\<not> isConverted c \<Longrightarrow> \<forall>it\<in>set (items c). \<not> removeMatch itemId it \<Longrightarrow>
   removeItem now itemId c = (Inl (ReferenceError ''next is not defined''), c)"
  by (simp add: removeItem_def findIndex_None[symmetric])

text \<open>
  Claim C8. For an identifier that matches no line, \<^verbatim>\<open>removeItem\<close> should fail with the
  404 error \<^verbatim>\<open>Item not found in cart\<close> and leave the items unchanged. The items are
  unchanged, but the error is the \<^verbatim>\<open>ReferenceError\<close> of the unbound name \<^verbatim>\<open>next\<close>, which
  carries no status 404; \<^verbatim>\<open>updateItemQuantity\<close> on the same input throws the 404 error.
\<close>

theorem removeItem_missing_line:
  "removeItem 9 (Some ''dddddddddddddddddddddddd'') mugCart
     = (Inl (ReferenceError ''next is not defined''), mugCart)
   \<and> statusCode (ReferenceError ''next is not defined'') \<noteq> Some 404
   \<and> fst (updateItemQuantity 9 (Some ''dddddddddddddddddddddddd'') (Num 3) mugCart)
     = Inl (AppError ''Item not found in cart'' 404)"
  by code_simp

subsection \<open>Conversion happens at most once\<close>

lemma convertToOrder_converted:
  "isConverted c \<Longrightarrow>
   convertToOrder now newId pd sa pm c db =
     (Inl (AppError ''Cart has already been converted to an order'' 400), c, db)"
  by (simp add: convertToOrder_def)

lemma convertToOrder_sets_converted:
  assumes "convertToOrder now newId pd sa pm c db = (Inr d, c', db')"
  shows "isConverted c'"
  using assms
  by (auto simp: convertToOrder_def save_def saveAfter_def
      split: if_splits option.splits prod.splits sum.splits)

text \<open>
  Claim C2. After a successful \<^verbatim>\<open>convertToOrder\<close> the cart has \<^verbatim>\<open>isConverted\<close> set, and
  every further call, whatever its arguments, throws the error with status 400, returns
  the cart document unchanged and leaves the Order collection unchanged.
\<close>

theorem convertToOrder_second_call_fails:
  assumes "convertToOrder now newId pd sa pm c db = (Inr d, c', db')"
  shows "isConverted c'
       \<and> convertToOrder now2 newId2 pd2 sa2 pm2 c' db' =
           (Inl (AppError ''Cart has already been converted to an order'' 400), c', db')"
  using convertToOrder_sets_converted[OF assms] convertToOrder_converted by blast

theorem convertToOrder_second_call_fails_witness:
  "convertToOrder 10 orderIdA noPaymentInput (Some homeAddress) (Some ''card'') mugCart []
     = (Inr cardOrder, convertedMugCart, [cardOrder])
   \<and> isConverted convertedMugCart
   \<and> convertToOrder 11 orderIdB noPaymentInput (Some homeAddress) (Some ''card'')
       convertedMugCart [cardOrder]
     = (Inl (AppError ''Cart has already been converted to an order'' 400),
        convertedMugCart, [cardOrder])"
proof -
  have first: "convertToOrder 10 orderIdA noPaymentInput (Some homeAddress) (Some ''card'')
                 mugCart [] = (Inr cardOrder, convertedMugCart, [cardOrder])"
    by code_simp
  from convertToOrder_second_call_fails[OF first] first show ?thesis
    by blast
qed

subsection \<open>What a conversion creates\<close>

lemma convertToOrder_success:
  assumes "convertToOrder now newId pd sa pm c db = (Inr d, c', db')"
  shows "\<exists>addr m c1. sa = Some addr \<and> pm = Some m \<and> m \<noteq> []
           \<and> d = newOrder newId (buildOrderData now pd addr m c1)
           \<and> validOrder d \<and> db' = db @ [d]"
  using assms
  by (auto simp: convertToOrder_def Order_create_def orElse_def Let_def
      split: if_splits option.splits prod.splits sum.splits)

text \<open>With \<^verbatim>\<open>paymentMethod\<close> \<^verbatim>\<open>'cash'\<close> the method asks for status \<^verbatim>\<open>'pending'\<close>, which is
  not in the \<^verbatim>\<open>enum\<close> of the Order schema: no conversion with cash succeeds.\<close>

lemma convertToOrder_cash_fails:
  "convertToOrder now newId pd sa (Some ''cash'') c db \<noteq> (Inr d, c', db')"
proof
  assume "convertToOrder now newId pd sa (Some ''cash'') c db = (Inr d, c', db')"
  from convertToOrder_success[OF this] obtain addr c1 where
    d: "d = newOrder newId (buildOrderData now pd addr ''cash'' c1)" and v: "validOrder d"
    by auto
  from d have "status d = ''pending''" by (simp add: newOrder_def buildOrderData_def)
  with v show False by (simp add: validOrder_def orderStatuses_def)
qed

text \<open>Every conversion that succeeds is one with another payment method, and its order
  is paid at creation, in status \<^verbatim>\<open>'processing'\<close>, with \<^verbatim>\<open>paymentStatus\<close> at its default.\<close>

lemma convertToOrder_not_cash:
  assumes "convertToOrder now newId pd sa pm c db = (Inr d, c', db')"
  shows "pm \<noteq> Some ''cash'' \<and> isPaid d \<and> paidAt d = Some now \<and> status d = ''processing''
         \<and> paymentStatus d = ''pending''"
proof -
  from convertToOrder_success[OF assms] obtain addr m c1 where
    m: "pm = Some m" and d: "d = newOrder newId (buildOrderData now pd addr m c1)"
    by auto
  from assms m have "m \<noteq> ''cash''" using convertToOrder_cash_fails by blast
  with m d show ?thesis by (simp add: newOrder_def buildOrderData_def)
qed

text \<open>
  Claim C3. A conversion with \<^verbatim>\<open>paymentMethod\<close> \<^verbatim>\<open>'cash'\<close> should give an unpaid order in
  status \<^verbatim>\<open>'pending'\<close>. On a valid cart with a valid address the method builds the order
  data with status \<^verbatim>\<open>'pending'\<close>, \<^verbatim>\<open>Order.create\<close> rejects it because \<^verbatim>\<open>'pending'\<close> is no
  value of the schema's \<^verbatim>\<open>status\<close>, and the call throws: no order exists afterwards
  and the cart is not converted.
\<close>

theorem convertToOrder_cash_rejected:
  "convertToOrder 10 orderIdA noPaymentInput (Some homeAddress) (Some ''cash'') mugCart []
     = (Inl (ValidationError ''Order validation failed''), mugCart, [])
   \<and> od_status (buildOrderData 10 noPaymentInput homeAddress ''cash'' mugCart) = ''pending''
   \<and> ''pending'' \<notin> set orderStatuses"
  by code_simp

subsection \<open>Status updates\<close>

lemma findById_length: "findById oid db = Inr r \<Longrightarrow> length oid = 24"
  by (simp add: findById_def findOne_def castObjectId_def split: if_splits option.splits)

text \<open>The refusals of \<^verbatim>\<open>updateOrderStatus\<close> that the handler does implement: from
  \<^verbatim>\<open>'delivered'\<close>, to the current status, and to \<^verbatim>\<open>'cancelled'\<close> from \<^verbatim>\<open>'confirmed'\<close>,
  \<^verbatim>\<open>'shipped'\<close> or \<^verbatim>\<open>'delivered'\<close>.\<close>

lemma updateOrderStatus_refusals:
  assumes found: "findById oid db = Inr (Some d)"
    and oid: "params_orderId req = Some oid"
    and ns: "body_newStatus req = Some s" "toLowerCase s \<in> set allowedStatuses"
    and blocked: "status d = ''delivered'' \<or> status d = toLowerCase s
        \<or> (toLowerCase s = ''cancelled'' \<and> status d \<in> {''confirmed'', ''shipped'', ''delivered''})"
  shows "\<exists>msg. updateOrderStatus now req db = (Inl (AppError msg 400), db)"
proof -
  from found have len: "length oid = 24" by (rule findById_length)
  from ns have "s \<noteq> []" by (auto simp: toLowerCase_def allowedStatuses_def)
  with found oid ns len blocked show ?thesis
    by (auto simp: updateOrderStatus_def badOrderId_def orElse_def Let_def)
qed

text \<open>
  Claim C4. The status update should fail on a cancelled order, \<^verbatim>\<open>'cancelled'\<close> being
  terminal. The handler has no such guard: an administrator's request for
  \<^verbatim>\<open>'processing'\<close> on a cancelled order succeeds and stores the order with status
  \<^verbatim>\<open>'processing'\<close> (and \<^verbatim>\<open>isCancelled\<close> still set), while \<^verbatim>\<open>markOrderAsDelivered\<close> refuses
  the same order because it is cancelled.
\<close>

theorem updateOrderStatus_reopens_cancelled:
  "updateOrderStatus 30
     ((requestFor (Some adminUser) orderIdA)\<lparr>body_newStatus := Some ''processing''\<rparr>)
     [cancelledOrder]
     = (Inr (cancelledOrder\<lparr>status := ''processing''\<rparr>),
        [cancelledOrder\<lparr>status := ''processing''\<rparr>])
   \<and> status cancelledOrder = ''cancelled''
   \<and> isCancelled (cancelledOrder\<lparr>status := ''processing''\<rparr>)
   \<and> fst (markOrderAsDelivered 30 (requestFor (Some adminUser) orderIdA) [cancelledOrder])
     = Inl (AppError ''This order was cancelled and cannot be marked as delivered.'' 400)"
  by code_simp

subsection \<open>Marking an order as paid\<close>

lemma setNotes_fields:
  "isPaid (setNotes n x) = isPaid x \<and> paidAt (setNotes n x) = paidAt x
   \<and> isDelivered (setNotes n x) = isDelivered x \<and> status (setNotes n x) = status x
   \<and> order_id (setNotes n x) = order_id x \<and> paymentStatus (setNotes n x) = paymentStatus x
   \<and> isCancelled (setNotes n x) = isCancelled x"
  by (simp add: setNotes_def split: option.splits)

text \<open>
  Claim C6. Let the request address an order of the collection. If the order is
  cancelled (by status or by flag) or already paid, \<^verbatim>\<open>markOrderAsPaid\<close> answers with an
  error and writes nothing; for an administrator the error has status 400. When the
  handler succeeds, the order it stores in place of the old one has \<^verbatim>\<open>isPaid\<close> set,
  \<^verbatim>\<open>paidAt\<close> at the time of the call, \<^verbatim>\<open>isDelivered\<close> set and status \<^verbatim>\<open>'delivered'\<close>.
\<close>

theorem markOrderAsPaid_guarded:
  assumes found: "findById oid db = Inr (Some d)"
    and oid: "params_orderId req = Some oid"
  shows "(status d = ''cancelled'' \<or> isCancelled d \<or> isPaid d \<longrightarrow>
            (\<exists>e. markOrderAsPaid now req db = (Inl e, db)
              \<and> ((\<exists>a. req_user req = Some a \<and> role a = ''admin'') \<longrightarrow> statusCode e = Some 400)))
       \<and> (\<forall>d' db'. markOrderAsPaid now req db = (Inr d', db') \<longrightarrow>
            isPaid d' \<and> paidAt d' = Some now \<and> isDelivered d' \<and> status d' = ''delivered''
            \<and> order_id d' = order_id d
            \<and> db' = map (\<lambda>x. if order_id x = order_id d then d' else x) db)"
proof -
  from found have len: "length oid = 24" by (rule findById_length)
  from found oid len setNotes_fields show ?thesis
    by (auto simp: markOrderAsPaid_def badOrderId_def orElse_def Let_def saveOrder_def
        split: option.splits if_splits)
qed

text \<open>An unpaid cash order is marked paid and delivered; an order that is already paid
  and one that is cancelled are refused with status 400.\<close>

theorem markOrderAsPaid_guarded_witness:
  "findById orderIdA [unpaidOrder] = Inr (Some unpaidOrder)
   \<and> markOrderAsPaid 30 (requestFor (Some adminUser) orderIdA) [unpaidOrder]
       = (Inr paidOrder, [paidOrder])
   \<and> isPaid paidOrder \<and> paidAt paidOrder = Some 30 \<and> isDelivered paidOrder
   \<and> status paidOrder = ''delivered''
   \<and> isPaid cardOrder
   \<and> markOrderAsPaid 30 (requestFor (Some adminUser) orderIdA) [cardOrder]
       = (Inl (AppError ''Order is already marked as paid.'' 400), [cardOrder])
   \<and> isCancelled cancelledOrder
   \<and> markOrderAsPaid 30 (requestFor (Some adminUser) orderIdA) [cancelledOrder]
       = (Inl (AppError ''This order is cancelled and cannot be marked as paid.'' 400),
          [cancelledOrder])"
proof -
  have found: "findById orderIdA [unpaidOrder] = Inr (Some unpaidOrder)"
    by code_simp
  have oid: "params_orderId (requestFor (Some adminUser) orderIdA) = Some orderIdA"
    by (simp add: requestFor_def)
  have run: "markOrderAsPaid 30 (requestFor (Some adminUser) orderIdA) [unpaidOrder]
               = (Inr paidOrder, [paidOrder])"
    by code_simp
  have refused: "isPaid cardOrder
     \<and> markOrderAsPaid 30 (requestFor (Some adminUser) orderIdA) [cardOrder]
         = (Inl (AppError ''Order is already marked as paid.'' 400), [cardOrder])
     \<and> isCancelled cancelledOrder
     \<and> markOrderAsPaid 30 (requestFor (Some adminUser) orderIdA) [cancelledOrder]
         = (Inl (AppError ''This order is cancelled and cannot be marked as paid.'' 400),
            [cancelledOrder])"
    by code_simp
  from markOrderAsPaid_guarded[OF found oid, of 30] run
  have "isPaid paidOrder \<and> paidAt paidOrder = Some 30 \<and> isDelivered paidOrder
        \<and> status paidOrder = ''delivered''"
    by blast
  with found run refused show ?thesis by blast
qed

subsection \<open>Finding an order\<close>

lemma same_id_same_order:
  "distinct (map order_id db) \<Longrightarrow> x \<in> set db \<Longrightarrow> y \<in> set db \<Longrightarrow> order_id x = order_id y \<Longrightarrow> x = y"
  by (meson distinct_map inj_on_def)

lemma find_unique:
  assumes "distinct (map order_id db)" "d \<in> set db" "Q d" "\<forall>x. Q x \<longrightarrow> order_id x = order_id d"
  shows "find Q db = Some d"
  using assms(1,2)
proof (induction db)
  case Nil
  then show ?case by simp
next
  case (Cons x xs)
  show ?case
  proof (cases "Q x")
    case True
    with assms(4) have "order_id x = order_id d" by blast
    with Cons.prems have "x = d" by (auto simp: image_iff)
    with True show ?thesis by simp
  next
    case False
    with assms(3) have "x \<noteq> d" by blast
    with Cons.prems have "d \<in> set xs" "distinct (map order_id xs)" by auto
    with Cons.IH False show ?thesis by simp
  qed
qed

lemma findOne_Some:
  "findOne q db = Inr (Some d) \<Longrightarrow>
   d \<in> set db \<and> castObjectId (f_id q) = Some (order_id d) \<and> matches q (order_id d) d"
  by (auto simp: findOne_def find_Some_iff matches_def split: option.splits)

lemma findById_Some: "findById oid db = Inr (Some d) \<Longrightarrow> d \<in> set db"
  by (auto simp: findById_def dest: findOne_Some)

lemma findOne_findById:
  assumes "distinct (map order_id db)" "findOne q db = Inr (Some d)"
  shows "findById (f_id q) db = Inr (Some d)"
proof -
  from findOne_Some[OF assms(2)] have d: "d \<in> set db"
    and c: "castObjectId (f_id q) = Some (order_id d)" by auto
  have "find (matches \<lparr>f_id = f_id q, f_user = None, f_guestEmail = None, f_isGuest = None\<rparr>
          (order_id d)) db = Some d"
    using assms(1) d by (rule find_unique) (simp_all add: matches_def)
  with c show ?thesis by (simp add: findById_def findOne_def)
qed

lemma accessQuery_id: "accessQuery u e oid = Some q \<Longrightarrow> f_id q = oid"
  by (auto simp: accessQuery_def split: option.splits if_splits)

subsection \<open>Cancellation by the customer\<close>

lemma validOrder_cancelled:
  "validOrder d \<Longrightarrow> validOrder (d\<lparr>status := ''cancelled'', isCancelled := True, cancelledAt := t\<rparr>)"
  by (simp add: validOrder_def orderStatuses_def)

lemma cancelMyOrder_found:
  assumes q: "accessQuery (req_user req) (body_guestEmail req) oid = Some q"
    and oid: "params_orderId req = Some oid"
    and found: "findOne q db = Inr (Some d)"
  shows "(status d = ''cancelled'' \<or> isCancelled d \<or> status d = ''delivered'' \<or> isDelivered d
            \<or> (status d = ''shipped'' \<and> paymentStatus d = ''paid'') \<longrightarrow>
          (\<exists>msg. cancelMyOrder now req db = (Inl (AppError msg 400), db)))
       \<and> (\<not> (status d = ''cancelled'' \<or> isCancelled d \<or> status d = ''delivered'' \<or> isDelivered d
            \<or> (status d = ''shipped'' \<and> paymentStatus d = ''paid'')) \<and> validOrder d \<longrightarrow>
          (\<exists>db'. cancelMyOrder now req db =
             (Inr (d\<lparr>status := ''cancelled'', isCancelled := True, cancelledAt := Some now\<rparr>), db')))
       \<and> (\<forall>d' db' a. cancelMyOrder now req db = (Inr d', db') \<and> distinct (map order_id db)
            \<and> role a = ''admin'' \<longrightarrow>
          markOrderAsCancelled now (req\<lparr>req_user := Some a, body_notes := None\<rparr>) db = (Inr d', db'))"
proof -
  from findOne_Some[OF found] have len: "length oid = 24"
    using accessQuery_id[OF q] by (auto simp: castObjectId_def split: if_splits)
  have bad: "\<not> badOrderId (params_orderId req)" using oid len by (simp add: badOrderId_def)
  have oe: "orElse (params_orderId req) [] = oid" using oid len by (auto simp: orElse_def)
  have one: ?thesis if "\<not> distinct (map order_id db)"
    using that bad oe q found validOrder_cancelled[of d "Some now"]
    by (auto simp: cancelMyOrder_def saveOrder_def Let_def)
  have two: ?thesis if dist: "distinct (map order_id db)"
  proof -
    from findOne_findById[OF dist found] accessQuery_id[OF q]
    have fb: "findById oid db = Inr (Some d)" by simp
    show ?thesis
      using bad oe q found fb validOrder_cancelled[of d "Some now"] oid
      by (auto simp: cancelMyOrder_def markOrderAsCancelled_def saveOrder_def Let_def setNotes_def)
  qed
  from one two show ?thesis by blast
qed

text \<open>
  Claim C5, as stated: the customer's cancellation applies the block on cancelling from
  \<^verbatim>\<open>'confirmed'\<close>, \<^verbatim>\<open>'shipped'\<close> or \<^verbatim>\<open>'delivered'\<close>. It does not: the owner of a confirmed
  order cancels it with \<^verbatim>\<open>cancelMyOrder\<close>, while the administrator's status update to
  \<^verbatim>\<open>'cancelled'\<close> is refused on the same order.
\<close>

theorem cancelMyOrder_confirmed_counterexample:
  "status confirmedOrder = ''confirmed''
   \<and> cancelMyOrder 30 (requestFor (Some cartOwner) orderIdA) [confirmedOrder]
       = (Inr customerCancelledOrder, [customerCancelledOrder])
   \<and> updateOrderStatus 30
         ((requestFor (Some adminUser) orderIdA)\<lparr>body_newStatus := Some ''cancelled''\<rparr>)
         [confirmedOrder]
       = (Inl (AppError ''You cannot cancel an order that is already confirmed or beyond.'' 400),
          [confirmedOrder])"
  by code_simp

text \<open>
  Claim C5, amended. Let the customer's request select an order \<open>d\<close> (by identifier and
  owner). \<^verbatim>\<open>cancelMyOrder\<close> is refused with status 400 when \<open>d\<close> is cancelled or delivered
  (by status or by flag) or is shipped with \<^verbatim>\<open>paymentStatus\<close> \<^verbatim>\<open>'paid'\<close>; in every other
  state of a valid order, \<^verbatim>\<open>'confirmed'\<close> and unpaid \<^verbatim>\<open>'shipped'\<close> included, it cancels the
  order. Whenever it succeeds, the administrator's \<^verbatim>\<open>markOrderAsCancelled\<close> on the same
  order gives the same result; and there is an order (shipped and paid) that the
  administrator cancels and its owner cannot.
\<close>

theorem cancelMyOrder_guards:
  "(accessQuery (req_user req) (body_guestEmail req) oid = Some q
      \<and> params_orderId req = Some oid \<and> findOne q db = Inr (Some d) \<longrightarrow>
      (status d = ''cancelled'' \<or> isCancelled d \<or> status d = ''delivered'' \<or> isDelivered d
          \<or> (status d = ''shipped'' \<and> paymentStatus d = ''paid'') \<longrightarrow>
        (\<exists>msg. cancelMyOrder now req db = (Inl (AppError msg 400), db)))
    \<and> (\<not> (status d = ''cancelled'' \<or> isCancelled d \<or> status d = ''delivered'' \<or> isDelivered d
          \<or> (status d = ''shipped'' \<and> paymentStatus d = ''paid'')) \<and> validOrder d \<longrightarrow>
        (\<exists>db'. cancelMyOrder now req db =
           (Inr (d\<lparr>status := ''cancelled'', isCancelled := True, cancelledAt := Some now\<rparr>), db')))
    \<and> (\<forall>d' db' a. cancelMyOrder now req db = (Inr d', db') \<and> distinct (map order_id db)
          \<and> role a = ''admin'' \<longrightarrow>
        markOrderAsCancelled now (req\<lparr>req_user := Some a, body_notes := None\<rparr>) db
          = (Inr d', db')))
   \<and> (cancelMyOrder 30 (requestFor (Some cartOwner) orderIdA) [shippedPaidOrder]
         = (Inl (AppError ''Shipped and paid orders cannot be cancelled.'' 400), [shippedPaidOrder])
      \<and> (\<exists>d'. markOrderAsCancelled 30 (requestFor (Some adminUser) orderIdA) [shippedPaidOrder]
                = (Inr d', [d'])))"
  (is "(?H \<longrightarrow> ?G) \<and> ?S")
proof -
  have general: "?H \<longrightarrow> ?G"
  proof
    assume ?H
    then have q: "accessQuery (req_user req) (body_guestEmail req) oid = Some q"
      and oid: "params_orderId req = Some oid" and found: "findOne q db = Inr (Some d)"
      by simp_all
    from cancelMyOrder_found[OF q oid found, of now] show ?G .
  qed
  have owner: "cancelMyOrder 30 (requestFor (Some cartOwner) orderIdA) [shippedPaidOrder]
         = (Inl (AppError ''Shipped and paid orders cannot be cancelled.'' 400), [shippedPaidOrder])"
    by code_simp
  have "markOrderAsCancelled 30 (requestFor (Some adminUser) orderIdA) [shippedPaidOrder]
          = (Inr (shippedPaidOrder\<lparr>status := ''cancelled'', isCancelled := True,
                                    cancelledAt := Some 30\<rparr>),
             [shippedPaidOrder\<lparr>status := ''cancelled'', isCancelled := True,
                               cancelledAt := Some 30\<rparr>])"
    by code_simp
  then have "\<exists>d'. markOrderAsCancelled 30 (requestFor (Some adminUser) orderIdA)
                [shippedPaidOrder] = (Inr d', [d'])"
    by blast
  with owner have ?S ..
  with general show ?thesis ..
qed

text \<open>The owner cancels a confirmed order, and the administrator's
  \<^verbatim>\<open>markOrderAsCancelled\<close> on that order gives the same result.\<close>

theorem cancelMyOrder_guards_witness:
  "findOne \<lparr>f_id = orderIdA, f_user = Some (user_id cartOwner), f_guestEmail = None,
             f_isGuest = None\<rparr> [confirmedOrder] = Inr (Some confirmedOrder)
   \<and> status confirmedOrder = ''confirmed'' \<and> validOrder confirmedOrder
   \<and> cancelMyOrder 30 (requestFor (Some cartOwner) orderIdA) [confirmedOrder]
       = (Inr customerCancelledOrder, [customerCancelledOrder])
   \<and> markOrderAsCancelled 30 (requestFor (Some adminUser) orderIdA) [confirmedOrder]
       = (Inr customerCancelledOrder, [customerCancelledOrder])"
proof -
  let ?req = "requestFor (Some cartOwner) orderIdA"
  let ?q = "\<lparr>f_id = orderIdA, f_user = Some (user_id cartOwner), f_guestEmail = None,
             f_isGuest = None\<rparr>"
  have q: "accessQuery (req_user ?req) (body_guestEmail ?req) orderIdA = Some ?q"
    by code_simp
  have oid: "params_orderId ?req = Some orderIdA"
    by (simp add: requestFor_def)
  have found: "findOne ?q [confirmedOrder] = Inr (Some confirmedOrder)"
    by code_simp
  have state: "status confirmedOrder = ''confirmed'' \<and> validOrder confirmedOrder"
    by code_simp
  have run: "cancelMyOrder 30 ?req [confirmedOrder]
               = (Inr customerCancelledOrder, [customerCancelledOrder])"
    by code_simp
  have admin: "role adminUser = ''admin''" "distinct (map order_id [confirmedOrder])"
    by (simp_all add: adminUser_def)
  have same: "?req\<lparr>req_user := Some adminUser, body_notes := None\<rparr>
                = requestFor (Some adminUser) orderIdA"
    by (simp add: requestFor_def)
  from cancelMyOrder_guards[of ?req orderIdA ?q "[confirmedOrder]" confirmedOrder 30]
    q oid found run admin
  have "markOrderAsCancelled 30 (?req\<lparr>req_user := Some adminUser, body_notes := None\<rparr>)
          [confirmedOrder] = (Inr customerCancelledOrder, [customerCancelledOrder])"
    by blast
  with same found state run show ?thesis by simp
qed

subsection \<open>Reading a guest order\<close>

text \<open>Both ways of creating an order leave \<^verbatim>\<open>user\<close> unset on a guest order. For the
  conversion of a guest cart:\<close>

lemma calculateTotals_owner:
  "user (snd (calculateTotals now c)) = user c
   \<and> isGuest (snd (calculateTotals now c)) = isGuest c
   \<and> guestEmail (snd (calculateTotals now c)) = guestEmail c"
  by (simp add: calculateTotals_def stampAndSave_def saveAfter_def assignTotal_def
      assignSubtotal_def split: sum.splits option.splits)

lemma convertToOrder_guest_order:
  assumes "convertToOrder now newId pd sa pm c db = (Inr d, c', db')"
    and "user c = None" "isGuest c"
  shows "order_isGuest d \<and> order_guestEmail d = guestEmail c \<and> order_user d = None"
proof -
  from assms(1) obtain addr m c1 where
    d: "d = newOrder newId (buildOrderData now pd addr m c1)"
    and c1: "c1 = c \<or> c1 = snd (calculateTotals now c)"
    by (auto simp: convertToOrder_def Order_create_def orElse_def Let_def
        split: if_splits option.splits prod.splits sum.splits)
  from c1 assms(2,3) have "user c1 = None \<and> isGuest c1 \<and> guestEmail c1 = guestEmail c"
    using calculateTotals_owner[of now c] by auto
  with d show ?thesis by (simp add: newOrder_def buildOrderData_def)
qed

text \<open>Without identity and without email the answer is the 400 error, whatever the
  identifier and the collection.\<close>

lemma getMyOrderById_anonymous:
  assumes "req_user req = None" "query_guestEmail req = None \<or> query_guestEmail req = Some []"
  shows "\<exists>msg. getMyOrderById req db = Inl (AppError msg 400)"
  using assms by (auto simp: getMyOrderById_def accessQuery_def)

text \<open>
  Claim C9. Let \<open>g\<close> be a guest order of the collection (\<^verbatim>\<open>isGuest\<close> set, a guest email,
  no user) and let the request carry its identifier. \<^verbatim>\<open>getMyOrderById\<close> returns \<open>g\<close>
  exactly when the caller is an administrator, or has no identity and supplies an email
  whose lowercase form is the order's guest email. Another authenticated user, and a
  guest with another email, get the 404 error; a caller with neither identity nor email
  gets the 400 error.
\<close>

theorem getMyOrderById_guest_access:
  assumes g: "g \<in> set db" and dist: "distinct (map order_id db)"
    and guest: "order_isGuest g" "order_guestEmail g = Some email" "order_user g = None"
    and oid: "params_orderId req = Some oid" "castObjectId oid = Some (order_id g)"
  shows "(getMyOrderById req db = Inr g \<longleftrightarrow>
            (\<exists>a. req_user req = Some a \<and> role a = ''admin'')
          \<or> (req_user req = None
              \<and> (\<exists>e. query_guestEmail req = Some e \<and> e \<noteq> [] \<and> toLowerCase e = email)))
       \<and> ((\<exists>a. req_user req = Some a \<and> role a \<noteq> ''admin'')
          \<or> (req_user req = None
              \<and> (\<exists>e. query_guestEmail req = Some e \<and> e \<noteq> [] \<and> toLowerCase e \<noteq> email)) \<longrightarrow>
           getMyOrderById req db = Inl (AppError ''No order found with that ID for your account.'' 404))
       \<and> (req_user req = None \<and> (query_guestEmail req = None \<or> query_guestEmail req = Some []) \<longrightarrow>
           getMyOrderById req db = Inl (AppError ''Please provide your email to view this order.'' 400))"
proof -
  from oid have len: "length oid = 24" by (auto simp: castObjectId_def split: if_splits)
  have bad: "\<not> badOrderId (params_orderId req)" using oid len by (simp add: badOrderId_def)
  have oe: "orElse (params_orderId req) [] = oid" using oid len by (auto simp: orElse_def)
  have only: "\<And>q x. x \<in> set db \<Longrightarrow> matches q (order_id g) x \<Longrightarrow> x = g"
    using same_id_same_order[OF dist _ g] by (simp add: matches_def)
  have hit: "\<And>q. matches q (order_id g) g \<Longrightarrow> find (matches q (order_id g)) db = Some g"
    using find_unique[OF dist g] by (simp add: matches_def)
  have miss: "\<And>q. \<not> matches q (order_id g) g \<Longrightarrow> find (matches q (order_id g)) db = None"
    using only by (auto simp: find_None_iff)
  show ?thesis
  proof (cases "req_user req")
    case None
    show ?thesis
    proof (cases "query_guestEmail req = None \<or> query_guestEmail req = Some []")
      case True
      with None bad oe show ?thesis
        by (auto simp: getMyOrderById_def accessQuery_def)
    next
      case False
      then obtain e where e: "query_guestEmail req = Some e" "e \<noteq> []" by auto
      let ?q = "\<lparr>f_id = oid, f_user = None, f_guestEmail = Some (toLowerCase e), f_isGuest = Some True\<rparr>"
      have m: "matches ?q (order_id g) g \<longleftrightarrow> toLowerCase e = email"
        using guest by (auto simp: matches_def)
      show ?thesis
      proof (cases "toLowerCase e = email")
        case True
        with m hit[of ?q] None e bad oe oid show ?thesis
          by (simp add: getMyOrderById_def accessQuery_def findOne_def)
      next
        case False
        with m miss[of ?q] None e bad oe oid show ?thesis
          by (simp add: getMyOrderById_def accessQuery_def findOne_def)
      qed
    qed
  next
    case (Some a)
    show ?thesis
    proof (cases "role a = ''admin''")
      case True
      let ?q = "\<lparr>f_id = oid, f_user = None, f_guestEmail = None, f_isGuest = None\<rparr>"
      have "matches ?q (order_id g) g" by (simp add: matches_def)
      from hit[OF this] Some True bad oe oid show ?thesis
        by (simp add: getMyOrderById_def accessQuery_def findOne_def)
    next
      case False
      let ?q = "\<lparr>f_id = oid, f_user = Some (user_id a), f_guestEmail = None, f_isGuest = None\<rparr>"
      have "\<not> matches ?q (order_id g) g" using guest by (simp add: matches_def)
      from miss[OF this] Some False bad oe oid show ?thesis
        by (simp add: getMyOrderById_def accessQuery_def findOne_def)
    qed
  qed
qed

text \<open>A guest order created by \<^verbatim>\<open>convertToOrder\<close> for \<^verbatim>\<open>a@b.com\<close>, stored next to the order
  of a registered user.\<close>

theorem getMyOrderById_guest_access_witness:
  "convertToOrder 12 orderIdB noPaymentInput (Some homeAddress) (Some ''paypal'') guestCart
     [cardOrder] = (Inr guestOrder, guestCart\<lparr>isConverted := True, lastUpdated := 12\<rparr>,
                    [cardOrder, guestOrder])
   \<and> order_isGuest guestOrder \<and> order_guestEmail guestOrder = Some ''a@b.com''
   \<and> order_user guestOrder = None
   \<and> getMyOrderById (guestRequest ''A@B.com'' orderIdB) [cardOrder, guestOrder] = Inr guestOrder
   \<and> getMyOrderById (requestFor (Some adminUser) orderIdB) [cardOrder, guestOrder] = Inr guestOrder
   \<and> getMyOrderById (guestRequest ''c@b.com'' orderIdB) [cardOrder, guestOrder]
       = Inl (AppError ''No order found with that ID for your account.'' 404)
   \<and> getMyOrderById (requestFor (Some otherUser) orderIdB) [cardOrder, guestOrder]
       = Inl (AppError ''No order found with that ID for your account.'' 404)
   \<and> getMyOrderById (requestFor None orderIdB) [cardOrder, guestOrder]
       = Inl (AppError ''Please provide your email to view this order.'' 400)"
proof -
  let ?db = "[cardOrder, guestOrder]"
  have created: "convertToOrder 12 orderIdB noPaymentInput (Some homeAddress) (Some ''paypal'')
      guestCart [cardOrder]
      = (Inr guestOrder, guestCart\<lparr>isConverted := True, lastUpdated := 12\<rparr>, ?db)"
    by code_simp
  have g: "guestOrder \<in> set ?db" by simp
  have dist: "distinct (map order_id ?db)" by code_simp
  have guest: "order_isGuest guestOrder" "order_guestEmail guestOrder = Some ''a@b.com''"
    "order_user guestOrder = None"
    by code_simp+
  have cast: "castObjectId orderIdB = Some (order_id guestOrder)" by code_simp
  have lower: "toLowerCase ''A@B.com'' = ''a@b.com''" "toLowerCase ''c@b.com'' \<noteq> ''a@b.com''"
    by code_simp+
  note access = getMyOrderById_guest_access[OF g dist guest _ cast]
  have r1: "getMyOrderById (guestRequest ''A@B.com'' orderIdB) ?db = Inr guestOrder"
    using access[of "guestRequest ''A@B.com'' orderIdB"] lower
    by (simp add: guestRequest_def requestFor_def)
  have r2: "getMyOrderById (requestFor (Some adminUser) orderIdB) ?db = Inr guestOrder"
    using access[of "requestFor (Some adminUser) orderIdB"]
    by (simp add: requestFor_def adminUser_def)
  have r3: "getMyOrderById (guestRequest ''c@b.com'' orderIdB) ?db
       = Inl (AppError ''No order found with that ID for your account.'' 404)"
    using access[of "guestRequest ''c@b.com'' orderIdB"] lower
    by (simp add: guestRequest_def requestFor_def)
  have r4: "getMyOrderById (requestFor (Some otherUser) orderIdB) ?db
       = Inl (AppError ''No order found with that ID for your account.'' 404)"
    using access[of "requestFor (Some otherUser) orderIdB"]
    by (simp add: requestFor_def otherUser_def)
  have r5: "getMyOrderById (requestFor None orderIdB) ?db
       = Inl (AppError ''Please provide your email to view this order.'' 400)"
    using access[of "requestFor None orderIdB"]
    by (simp add: requestFor_def)
  from created guest r1 r2 r3 r4 r5 show ?thesis by simp
qed

subsection \<open>The payment status of a converted order\<close>

lemma keepsPaymentStatus_unpaid:
  assumes k: "keepsPaymentStatus db db'" and dist: "distinct (map order_id db)"
    and d0: "d0 \<in> set db" "paymentStatus d0 \<noteq> ''paid''"
    and d1: "d1 \<in> set db'" "order_id d1 = order_id d0"
  shows "paymentStatus d1 \<noteq> ''paid''"
proof (cases "db' = db")
  case True
  with d1 d0 dist have "d1 = d0" by (auto intro: same_id_same_order)
  with d0 show ?thesis by simp
next
  case False
  with k obtain d d' where d: "d \<in> set db" and same: "order_id d' = order_id d"
    "paymentStatus d' = paymentStatus d"
    and db': "db' = map (\<lambda>x. if order_id x = order_id d' then d' else x) db"
    by (auto simp: keepsPaymentStatus_def)
  from d1(1) db' consider "d1 = d'" | "d1 \<in> set db"
    by (auto split: if_splits)
  then show ?thesis
  proof cases
    case 1
    with d1(2) same have "order_id d = order_id d0" by simp
    with dist d d0 have "d = d0" by (auto intro: same_id_same_order)
    with 1 same d0 show ?thesis by simp
  next
    case 2
    with d1 d0 dist have "d1 = d0" by (auto intro: same_id_same_order)
    with d0 show ?thesis by simp
  qed
qed

lemma keepsPaymentStatus_refl: "keepsPaymentStatus db db"
  by (simp add: keepsPaymentStatus_def)

lemma saveOrder_keeps:
  "saveOrder d' db = Inr db' \<Longrightarrow> d \<in> set db \<Longrightarrow> order_id d' = order_id d \<Longrightarrow>
   paymentStatus d' = paymentStatus d \<Longrightarrow> keepsPaymentStatus db db'"
proof -
  assume s: "saveOrder d' db = Inr db'" and d: "d \<in> set db"
    and same: "order_id d' = order_id d" "paymentStatus d' = paymentStatus d"
  from s have "db' = map (\<lambda>x. if order_id x = order_id d' then d' else x) db"
    by (simp add: saveOrder_def split: if_splits)
  with d same show ?thesis
    unfolding keepsPaymentStatus_def by blast
qed

lemma cancelMyOrder_keeps: "cancelMyOrder now req db = (r, db') \<Longrightarrow> keepsPaymentStatus db db'"
  by (auto simp: cancelMyOrder_def keepsPaymentStatus_refl Let_def
      split: if_splits option.splits sum.splits dest!: findOne_Some
      intro: saveOrder_keeps)

lemma markOrderAsCancelled_keeps:
  "markOrderAsCancelled now req db = (r, db') \<Longrightarrow> keepsPaymentStatus db db'"
  by (auto simp: markOrderAsCancelled_def keepsPaymentStatus_refl Let_def setNotes_fields
      split: if_splits option.splits sum.splits dest!: findById_Some
      intro: saveOrder_keeps)

lemma updateOrderStatus_keeps:
  assumes "updateOrderStatus now req db = (r, db')"
    and "\<not> (\<exists>s. body_newStatus req = Some s \<and> toLowerCase s = ''delivered'')"
  shows "keepsPaymentStatus db db'"
proof (cases "body_newStatus req")
  case None
  with assms show ?thesis
    by (simp add: updateOrderStatus_def keepsPaymentStatus_refl split: if_splits)
next
  case (Some s)
  with assms(2) have nd: "toLowerCase s \<noteq> ''delivered''" by simp
  have oe: "orElse (Some s) [] = s" by (simp add: orElse_def)
  show ?thesis
    using assms(1) Some nd oe
    by (auto simp: updateOrderStatus_def keepsPaymentStatus_refl Let_def setNotes_fields
        split: if_splits option.splits sum.splits dest!: findById_Some
        intro: saveOrder_keeps)
qed

text \<open>
  Claim C10. An order returned by \<^verbatim>\<open>convertToOrder\<close> has \<^verbatim>\<open>paymentStatus\<close> \<^verbatim>\<open>'pending'\<close>,
  whatever the payment method, and is already paid when the method is not cash. In a
  collection with distinct identifiers, if one of the order operations turns the
  \<^verbatim>\<open>paymentStatus\<close> of a stored order into \<^verbatim>\<open>'paid'\<close>, the operation is
  \<^verbatim>\<open>markOrderAsPaid\<close>, \<^verbatim>\<open>markOrderAsDelivered\<close>, or \<^verbatim>\<open>updateOrderStatus\<close> with the new status
  \<^verbatim>\<open>'delivered'\<close>.
\<close>

theorem converted_order_paymentStatus:
  "(convertToOrder now newId pd sa pm c db = (Inr d, c', db') \<longrightarrow>
      paymentStatus d = ''pending'' \<and> (pm \<noteq> Some ''cash'' \<longrightarrow> isPaid d))
   \<and> (distinct (map order_id db0) \<and> d0 \<in> set db0 \<and> paymentStatus d0 \<noteq> ''paid''
       \<and> runOrderOp t x req db0 = (r, db1)
       \<and> d1 \<in> set db1 \<and> order_id d1 = order_id d0 \<and> paymentStatus d1 = ''paid'' \<longrightarrow>
      x = MarkOrderAsPaid \<or> x = MarkOrderAsDelivered
      \<or> (x = UpdateOrderStatus
          \<and> (\<exists>s. body_newStatus req = Some s \<and> toLowerCase s = ''delivered'')))"
proof (intro conjI impI)
  assume "convertToOrder now newId pd sa pm c db = (Inr d, c', db')"
  then obtain addr m c1 where "d = newOrder newId (buildOrderData now pd addr m c1)"
    by (auto simp: convertToOrder_def Order_create_def orElse_def Let_def
      split: if_splits option.splits prod.splits sum.splits)
  then show "paymentStatus d = ''pending''" by (simp add: newOrder_def)
next
  assume "convertToOrder now newId pd sa pm c db = (Inr d, c', db')" "pm \<noteq> Some ''cash''"
  then obtain addr m c1 where "d = newOrder newId (buildOrderData now pd addr m c1)"
    "pm = Some m"
    by (auto simp: convertToOrder_def Order_create_def orElse_def Let_def
      split: if_splits option.splits prod.splits sum.splits)
  with \<open>pm \<noteq> Some ''cash''\<close> show "isPaid d" by (simp add: newOrder_def buildOrderData_def)
next
  assume a: "distinct (map order_id db0) \<and> d0 \<in> set db0 \<and> paymentStatus d0 \<noteq> ''paid''
       \<and> runOrderOp t x req db0 = (r, db1)
       \<and> d1 \<in> set db1 \<and> order_id d1 = order_id d0 \<and> paymentStatus d1 = ''paid''"
  show "x = MarkOrderAsPaid \<or> x = MarkOrderAsDelivered
      \<or> (x = UpdateOrderStatus
          \<and> (\<exists>s. body_newStatus req = Some s \<and> toLowerCase s = ''delivered''))"
  proof (rule ccontr)
    assume n: "\<not> ?thesis"
    have "keepsPaymentStatus db0 db1"
    proof (cases x)
      case UpdateOrderStatus
      with a n show ?thesis by (auto intro: updateOrderStatus_keeps)
    next
      case MarkOrderAsCancelled
      with a show ?thesis by (auto intro: markOrderAsCancelled_keeps)
    next
      case CancelMyOrder
      with a show ?thesis by (auto intro: cancelMyOrder_keeps)
    qed (use n in auto)
    with a have "paymentStatus d1 \<noteq> ''paid''"
      by (auto dest: keepsPaymentStatus_unpaid)
    with a show False by simp
  qed
qed

text \<open>The order converted with \<^verbatim>\<open>'card'\<close> is paid and its \<^verbatim>\<open>paymentStatus\<close> is
  \<^verbatim>\<open>'pending'\<close>; \<^verbatim>\<open>markOrderAsPaid\<close> turns the \<^verbatim>\<open>paymentStatus\<close> of an unpaid order into
  \<^verbatim>\<open>'paid'\<close>.\<close>

theorem converted_order_paymentStatus_witness:
  "convertToOrder 10 orderIdA noPaymentInput (Some homeAddress) (Some ''card'') mugCart []
     = (Inr cardOrder, convertedMugCart, [cardOrder])
   \<and> paymentStatus cardOrder = ''pending'' \<and> isPaid cardOrder
   \<and> paymentStatus unpaidOrder \<noteq> ''paid''
   \<and> runOrderOp 30 MarkOrderAsPaid (requestFor (Some adminUser) orderIdA) [unpaidOrder]
       = (Inr paidOrder, [paidOrder])
   \<and> paymentStatus paidOrder = ''paid''"
proof -
  have conv: "convertToOrder 10 orderIdA noPaymentInput (Some homeAddress) (Some ''card'')
                mugCart [] = (Inr cardOrder, convertedMugCart, [cardOrder])"
    by code_simp
  have run: "runOrderOp 30 MarkOrderAsPaid (requestFor (Some adminUser) orderIdA) [unpaidOrder]
               = (Inr paidOrder, [paidOrder])"
    by code_simp
  have before: "paymentStatus unpaidOrder \<noteq> ''paid''"
    and after: "paymentStatus paidOrder = ''paid''"
    and ids: "order_id paidOrder = order_id unpaidOrder"
    by code_simp+
  note t = converted_order_paymentStatus[of 10 orderIdA noPaymentInput "Some homeAddress"
      "Some ''card''" mugCart "[]" cardOrder convertedMugCart "[cardOrder]"
      "[unpaidOrder]" unpaidOrder 30 MarkOrderAsPaid "requestFor (Some adminUser) orderIdA"
      "Inr paidOrder" "[paidOrder]" paidOrder]
  from t conv have "paymentStatus cardOrder = ''pending'' \<and> isPaid cardOrder"
    by simp
  with conv run before after show ?thesis by simp
qed

end
